theory Spec2Isabelle
  imports Main "HOL-Library.Word"
begin

section \<open>The optimizer's error codes and their MySQL codes (optimizer.go, lines 87--116)\<close>

text \<open>
  \<open>terror.ErrCode\<close> and \<open>terror.ErrClass\<close> are Go \<open>int\<close>s; the values of the map are
  \<open>uint16\<close>, here \<open>16 word\<close>.
\<close>

type_synonym ErrCode = int
type_synonym ErrClass = int

definition CodeOneColumn :: ErrCode where "CodeOneColumn = 1"
definition CodeSameColumns :: ErrCode where "CodeSameColumns = 2"
definition CodeMultiWildCard :: ErrCode where "CodeMultiWildCard = 3"
definition CodeUnsupported :: ErrCode where "CodeUnsupported = 4"
definition CodeInvalidGroupFuncUse :: ErrCode where "CodeInvalidGroupFuncUse = 5"
definition CodeIllegalReference :: ErrCode where "CodeIllegalReference = 6"

text \<open>
  The constants \<open>mysql.ErrOperandColumns\<close>, \<open>mysql.ErrParse\<close>,
  \<open>mysql.ErrInvalidGroupFuncUse\<close> and \<open>mysql.ErrIllegalReference\<close> are declared in package
  \<open>mysql\<close>, outside this file: they are parameters of the table.
\<close>

record mysql =
  mysql_ErrOperandColumns :: "16 word"
  mysql_ErrParse :: "16 word"
  mysql_ErrInvalidGroupFuncUse :: "16 word"
  mysql_ErrIllegalReference :: "16 word"

text \<open>The map literal of \<open>init\<close> (lines 108--114), entry by entry.\<close>

definition mySQLErrCodes :: "mysql \<Rightarrow> (ErrCode \<rightharpoonup> 16 word)" where
  "mySQLErrCodes M =
     [CodeOneColumn \<mapsto> mysql_ErrOperandColumns M,
      CodeSameColumns \<mapsto> mysql_ErrOperandColumns M,
      CodeMultiWildCard \<mapsto> mysql_ErrParse M,
      CodeInvalidGroupFuncUse \<mapsto> mysql_ErrInvalidGroupFuncUse M,
      CodeIllegalReference \<mapsto> mysql_ErrIllegalReference M]"

text \<open>
  \<open>init\<close> stores the literal in the global \<open>terror.ErrClassToMySQLCodes\<close> under the key
  \<open>terror.ClassOptimizer\<close> (line 115). The global is the state that \<open>init\<close> updates; the
  class constant, declared in package \<open>terror\<close>, is a parameter.
\<close>

definition init ::
  "mysql \<Rightarrow> ErrClass \<Rightarrow> (ErrClass \<rightharpoonup> (ErrCode \<rightharpoonup> 16 word)) \<Rightarrow> (ErrClass \<rightharpoonup> (ErrCode \<rightharpoonup> 16 word))"
where
  "init M ClassOptimizer ErrClassToMySQLCodes =
     ErrClassToMySQLCodes(ClassOptimizer \<mapsto> mySQLErrCodes M)"

section \<open>Values and state of \<open>Optimize\<close> and \<open>PrepareStmt\<close> (lines 26--85)\<close>

text \<open>
  \<open>errors.Trace(err)\<close> wraps a non-nil error with the place of the call; the wrapped
  error keeps \<open>err\<close> as its cause.
\<close>

datatype 'err traced = Trace 'err

text \<open>
  The two objects that \<open>Optimize\<close> allocates, \<open>make(map[*ast.ColumnNameExpr]int)\<close> and
  \<open>new(idAllocator)\<close>, live in an explicit store, at addresses. The keys of the map are
  pointers to AST nodes; the type \<open>idAllocator\<close> is declared outside this file and is a
  type parameter.
\<close>

type_synonym addr = nat

datatype ('node, 'al) object =
    ColMapper "'node \<rightharpoonup> int"
  | IdAllocator 'al

text \<open>
  What the functions called by \<open>Optimize\<close> can read and write: \<open>world\<close> stands for
  everything they own (the statement tree, the plan nodes, the catalog), \<open>store\<close> holds
  the objects allocated by \<open>Optimize\<close>.
\<close>

record ('w, 'node, 'al) mem =
  world :: 'w
  store :: "addr \<rightharpoonup> ('node, 'al) object"

text \<open>
  The fields of \<open>planBuilder\<close> that this file names. \<open>colMapper\<close> and \<open>allocator\<close> are
  references; \<open>err\<close> is nil (\<open>None\<close>) in a fresh builder.
\<close>

record ('sb, 'ctx, 'is, 'err) planBuilder =
  sb :: 'sb
  ctx :: 'ctx
  "is" :: 'is
  colMapper :: addr
  allocator :: addr
  err :: "'err option"

text \<open>\<open>res.p\<close> (line 62): the plan held by a \<open>physicalPlanInfo\<close>.\<close>

record 'plan physicalPlanInfo =
  p :: 'plan

text \<open>
  Every call that \<open>Optimize\<close> and \<open>PrepareStmt\<close> make to a function outside this file,
  with its arguments. A value of interface type \<open>Plan\<close>, \<open>LogicalPlan\<close> or
  \<open>PhysicalPlan\<close> is a \<open>'plan\<close>: a type assertion and a conversion between the
  interfaces keep the value. A nil slice is \<open>[]\<close>, a nil pointer \<open>None\<close>.
\<close>

datatype ('node, 'ctx, 'is, 'sb, 'plan, 'schema, 'expr, 'prop, 'err) call =
    Call_InferType 'node
  | Call_logicOptimize 'ctx 'node
  | Call_build "('sb, 'ctx, 'is, 'err) planBuilder" 'node
  | Call_PredicatePushDown 'plan "'expr list"
  | Call_PruneColumnsAndResolveIndices 'plan 'schema
  | Call_convert2PhysicalPlan 'plan "'prop option"
  | Call_PushLimit 'plan "'plan option"
  | Call_Refine 'plan
  | Call_SetFlag 'node
  | Call_Preprocess 'node 'is 'ctx
  | Call_Validate 'node bool

text \<open>
  The state of a run. \<open>brk\<close> is the next unused address of the store: it belongs to the
  Go runtime, the called functions get \<open>memory\<close> only and cannot move it. \<open>calls\<close> is
  an observation of the run, read by no function: each call made so far, in order, with
  the error it returned (\<open>None\<close> for nil, and for a function that returns no error).
  \<open>logged\<close> is what \<open>log.Debugf\<close> was given.
\<close>

record ('w, 'node, 'al, 'ctx, 'is, 'sb, 'plan, 'schema, 'expr, 'prop, 'err) state =
  memory :: "('w, 'node, 'al) mem"
  brk :: addr
  calls :: "(('node, 'ctx, 'is, 'sb, 'plan, 'schema, 'expr, 'prop, 'err) call \<times> 'err option) list"
  logged :: "string list"

text \<open>
  The functions, methods and globals that \<open>Optimize\<close> uses and that are declared outside
  this file. A function that may write takes the memory and returns it; \<open>GetSchema\<close> and
  \<open>ToString\<close> read only. \<open>isSelectStmt\<close> is the type assertion
  \<open>node.(*ast.SelectStmt)\<close>, \<open>isLogicalPlan\<close> the type assertion \<open>p.(LogicalPlan)\<close>,
  \<open>UseNewPlanner\<close> the package variable, \<open>zero_idAllocator\<close> the zero value that
  \<open>new(idAllocator)\<close> points to. \<open>Optimize\<close> reads \<open>UseNewPlanner\<close> at lines 33 and
  48 and writes it nowhere, nor hands it to a function it calls: it has one value during
  a run. A call that returns several values returns the ones \<open>Optimize\<close> binds. A plan
  or plan info returned with a nil error is taken to be non-nil, as the code takes it
  (it calls methods on it unchecked).
\<close>

record ('w, 'node, 'al, 'ctx, 'is, 'sb, 'plan, 'schema, 'expr, 'prop, 'err) env =
  UseNewPlanner :: bool
  isSelectStmt :: "'node \<Rightarrow> bool"
  isLogicalPlan :: "'plan \<Rightarrow> bool"
  zero_idAllocator :: 'al
  InferType :: "'node \<Rightarrow> ('w, 'node, 'al) mem \<Rightarrow> 'err option \<times> ('w, 'node, 'al) mem"
  logicOptimize :: "'ctx \<Rightarrow> 'node \<Rightarrow> ('w, 'node, 'al) mem \<Rightarrow> 'err option \<times> ('w, 'node, 'al) mem"
  build :: "('sb, 'ctx, 'is, 'err) planBuilder \<Rightarrow> 'node \<Rightarrow> ('w, 'node, 'al) mem
            \<Rightarrow> ('plan \<times> ('sb, 'ctx, 'is, 'err) planBuilder) \<times> ('w, 'node, 'al) mem"
  PredicatePushDown :: "'plan \<Rightarrow> 'expr list \<Rightarrow> ('w, 'node, 'al) mem
            \<Rightarrow> ('plan \<times> 'err option) \<times> ('w, 'node, 'al) mem"
  GetSchema :: "'plan \<Rightarrow> ('w, 'node, 'al) mem \<Rightarrow> 'schema"
  PruneColumnsAndResolveIndices :: "'plan \<Rightarrow> 'schema \<Rightarrow> ('w, 'node, 'al) mem
            \<Rightarrow> 'err option \<times> ('w, 'node, 'al) mem"
  convert2PhysicalPlan :: "'plan \<Rightarrow> 'prop option \<Rightarrow> ('w, 'node, 'al) mem
            \<Rightarrow> ('plan physicalPlanInfo \<times> 'err option) \<times> ('w, 'node, 'al) mem"
  PushLimit :: "'plan \<Rightarrow> 'plan option \<Rightarrow> ('w, 'node, 'al) mem \<Rightarrow> 'plan \<times> ('w, 'node, 'al) mem"
  ToString :: "'plan \<Rightarrow> ('w, 'node, 'al) mem \<Rightarrow> string"
  Refine :: "'plan \<Rightarrow> ('w, 'node, 'al) mem \<Rightarrow> 'err option \<times> ('w, 'node, 'al) mem"

text \<open>The functions that \<open>PrepareStmt\<close> calls.\<close>

record ('w, 'node, 'al, 'ctx, 'is, 'err) prep_env =
  SetFlag :: "'node \<Rightarrow> ('w, 'node, 'al) mem \<Rightarrow> ('w, 'node, 'al) mem"
  Preprocess :: "'node \<Rightarrow> 'is \<Rightarrow> 'ctx \<Rightarrow> ('w, 'node, 'al) mem \<Rightarrow> 'err option \<times> ('w, 'node, 'al) mem"
  Validate :: "'node \<Rightarrow> bool \<Rightarrow> ('w, 'node, 'al) mem \<Rightarrow> 'err option \<times> ('w, 'node, 'al) mem"

section \<open>The steps of a run\<close>

text \<open>A call \<open>c\<close> has returned the error \<open>e\<close> and left the memory \<open>m\<close>.\<close>

definition returned ::
  "('node, 'ctx, 'is, 'sb, 'plan, 'schema, 'expr, 'prop, 'err) call \<Rightarrow> 'err option
   \<Rightarrow> ('w, 'node, 'al) mem
   \<Rightarrow> ('w, 'node, 'al, 'ctx, 'is, 'sb, 'plan, 'schema, 'expr, 'prop, 'err) state
   \<Rightarrow> ('w, 'node, 'al, 'ctx, 'is, 'sb, 'plan, 'schema, 'expr, 'prop, 'err) state"
where
  "returned c e m s = s\<lparr>memory := m, calls := calls s @ [(c, e)]\<rparr>"

text \<open>
  \<open>make\<close> and \<open>new\<close>: the object is put at the next unused address, which is returned.
\<close>

definition alloc ::
  "('node, 'al) object
   \<Rightarrow> ('w, 'node, 'al, 'ctx, 'is, 'sb, 'plan, 'schema, 'expr, 'prop, 'err) state
   \<Rightarrow> addr \<times> ('w, 'node, 'al, 'ctx, 'is, 'sb, 'plan, 'schema, 'expr, 'prop, 'err) state"
where
  "alloc ob s =
     (brk s,
      s\<lparr>memory := (memory s)\<lparr>store := (store (memory s))(brk s \<mapsto> ob)\<rparr>, brk := Suc (brk s)\<rparr>)"

text \<open>
  The composite literal of lines 38--43: the map is made first, then the allocator, as
  the fields are written.
\<close>

definition newPlanBuilder ::
  "'sb \<Rightarrow> 'ctx \<Rightarrow> 'is \<Rightarrow> 'al
   \<Rightarrow> ('w, 'node, 'al, 'ctx, 'is, 'sb, 'plan, 'schema, 'expr, 'prop, 'err) state
   \<Rightarrow> ('sb, 'ctx, 'is, 'err) planBuilder
      \<times> ('w, 'node, 'al, 'ctx, 'is, 'sb, 'plan, 'schema, 'expr, 'prop, 'err) state"
where
  "newPlanBuilder sq cx isc z s =
     (case alloc (ColMapper Map.empty) s of (cm, s1) \<Rightarrow>
      case alloc (IdAllocator z) s1 of (al, s2) \<Rightarrow>
        (\<lparr>sb = sq, ctx = cx, is = isc, colMapper = cm, allocator = al, err = None\<rparr>, s2))"

section \<open>\<open>Optimize\<close> (lines 28--71)\<close>

text \<open>
  Lines 29--47, up to the built plan: type inference; \<open>logicOptimize\<close> when the
  statement is not a \<open>SelectStmt\<close> or \<open>UseNewPlanner\<close> is off; the fresh builder;
  \<open>builder.build(node)\<close> and the test of \<open>builder.err\<close>. Each \<open>return nil,
  errors.Trace(err)\<close> is an \<open>Inl\<close>; \<open>Inr\<close> carries the plan \<open>p\<close> of line 44 on.
\<close>

definition buildPlan ::
  "('w, 'node, 'al, 'ctx, 'is, 'sb, 'plan, 'schema, 'expr, 'prop, 'err) env
   \<Rightarrow> ('w, 'node, 'al, 'ctx, 'is, 'sb, 'plan, 'schema, 'expr, 'prop, 'err) state
   \<Rightarrow> 'ctx \<Rightarrow> 'node \<Rightarrow> 'sb \<Rightarrow> 'is
   \<Rightarrow> ('err traced + 'plan)
      \<times> ('w, 'node, 'al, 'ctx, 'is, 'sb, 'plan, 'schema, 'expr, 'prop, 'err) state"
where
  "buildPlan E s0 cx nd sq isc =
     (case InferType E nd (memory s0) of (e1, m1) \<Rightarrow>
      let s1 = returned (Call_InferType nd) e1 m1 s0 in
      case e1 of
        Some e \<Rightarrow> (Inl (Trace e), s1)
      | None \<Rightarrow>
         (case (if \<not> isSelectStmt E nd \<or> \<not> UseNewPlanner E
                then (case logicOptimize E cx nd (memory s1) of (e2, m2) \<Rightarrow>
                        (e2, returned (Call_logicOptimize cx nd) e2 m2 s1))
                else (None, s1)) of
            (Some e, s2) \<Rightarrow> (Inl (Trace e), s2)
          | (None, s2) \<Rightarrow>
             (case newPlanBuilder sq cx isc (zero_idAllocator E) s2 of (builder, s3) \<Rightarrow>
              case build E builder nd (memory s3) of ((pl, builder'), m4) \<Rightarrow>
              let s4 = returned (Call_build builder nd) (err builder') m4 s3 in
              case err builder' of
                Some e \<Rightarrow> (Inl (Trace e), s4)
              | None \<Rightarrow> (Inr pl, s4))))"

text \<open>
  Lines 49--64, the body of the \<open>if\<close> of line 48. \<open>logic\<close> is the plan \<open>pl\<close> until
  line 50 assigns it the plan \<open>lg\<close> that \<open>PredicatePushDown\<close> returns; the schema of
  line 54 is read from \<open>pl\<close>, the built plan, after the push-down. The result is the
  pair that Go returns: the plan (\<open>None\<close> for nil) and the error.
\<close>

definition newPipeline ::
  "('w, 'node, 'al, 'ctx, 'is, 'sb, 'plan, 'schema, 'expr, 'prop, 'err) env
   \<Rightarrow> 'plan
   \<Rightarrow> ('w, 'node, 'al, 'ctx, 'is, 'sb, 'plan, 'schema, 'expr, 'prop, 'err) state
   \<Rightarrow> ('plan option \<times> 'err traced option)
      \<times> ('w, 'node, 'al, 'ctx, 'is, 'sb, 'plan, 'schema, 'expr, 'prop, 'err) state"
where
  "newPipeline E pl s =
     (case PredicatePushDown E pl [] (memory s) of ((lg, e1), m1) \<Rightarrow>
      let s1 = returned (Call_PredicatePushDown pl []) e1 m1 s in
      case e1 of
        Some e \<Rightarrow> ((None, Some (Trace e)), s1)
      | None \<Rightarrow>
         (let sch = GetSchema E pl (memory s1) in
          case PruneColumnsAndResolveIndices E lg sch (memory s1) of (e2, m2) \<Rightarrow>
          let s2 = returned (Call_PruneColumnsAndResolveIndices lg sch) e2 m2 s1 in
          case e2 of
            Some e \<Rightarrow> ((None, Some (Trace e)), s2)
          | None \<Rightarrow>
             (case convert2PhysicalPlan E lg None (memory s2) of ((res, e3), m3) \<Rightarrow>
              let s3 = returned (Call_convert2PhysicalPlan lg None) e3 m3 s2 in
              case e3 of
                Some e \<Rightarrow> ((None, Some (Trace e)), s3)
              | None \<Rightarrow>
                 (case PushLimit E (p res) None (memory s3) of (q, m4) \<Rightarrow>
                  let s4 = returned (Call_PushLimit (p res) None) None m4 s3;
                      s5 = s4\<lparr>logged := logged s4 @ [''[PLAN] '' @ ToString E q (memory s4)]\<rparr>
                  in ((Some q, None), s5)))))"

text \<open>
  The whole function: the prefix, the test of line 48, then either the new pipeline or
  \<open>Refine\<close> (lines 66--70).
\<close>

definition Optimize ::
  "('w, 'node, 'al, 'ctx, 'is, 'sb, 'plan, 'schema, 'expr, 'prop, 'err) env
   \<Rightarrow> ('w, 'node, 'al, 'ctx, 'is, 'sb, 'plan, 'schema, 'expr, 'prop, 'err) state
   \<Rightarrow> 'ctx \<Rightarrow> 'node \<Rightarrow> 'sb \<Rightarrow> 'is
   \<Rightarrow> ('plan option \<times> 'err traced option)
      \<times> ('w, 'node, 'al, 'ctx, 'is, 'sb, 'plan, 'schema, 'expr, 'prop, 'err) state"
where
  "Optimize E s0 cx nd sq isc =
     (case buildPlan E s0 cx nd sq isc of
        (Inl e, s) \<Rightarrow> ((None, Some e), s)
      | (Inr pl, s) \<Rightarrow>
         if UseNewPlanner E \<and> isLogicalPlan E pl then newPipeline E pl s
         else
           (case Refine E pl (memory s) of (e, m) \<Rightarrow>
            let s' = returned (Call_Refine pl) e m s in
            case e of
              Some x \<Rightarrow> ((None, Some (Trace x)), s')
            | None \<Rightarrow> ((Some pl, None), s')))"

section \<open>\<open>PrepareStmt\<close> (lines 76--85)\<close>

definition PrepareStmt ::
  "('w, 'node, 'al, 'ctx, 'is, 'err) prep_env
   \<Rightarrow> ('w, 'node, 'al, 'ctx, 'is, 'sb, 'plan, 'schema, 'expr, 'prop, 'err) state
   \<Rightarrow> 'is \<Rightarrow> 'ctx \<Rightarrow> 'node
   \<Rightarrow> 'err traced option
      \<times> ('w, 'node, 'al, 'ctx, 'is, 'sb, 'plan, 'schema, 'expr, 'prop, 'err) state"
where
  "PrepareStmt P s0 isc cx nd =
     (let s1 = returned (Call_SetFlag nd) None (SetFlag P nd (memory s0)) s0 in
      case Preprocess P nd isc cx (memory s1) of (e2, m2) \<Rightarrow>
      let s2 = returned (Call_Preprocess nd isc cx) e2 m2 s1 in
      case e2 of
        Some e \<Rightarrow> (Some (Trace e), s2)
      | None \<Rightarrow>
         (case Validate P nd True (memory s2) of (e3, m3) \<Rightarrow>
          let s3 = returned (Call_Validate nd True) e3 m3 s2 in
          case e3 of
            Some e \<Rightarrow> (Some (Trace e), s3)
          | None \<Rightarrow> (None, s3)))"

section \<open>Reading the observation of a run\<close>

text \<open>The calls made between the state \<open>s0\<close> and the later state \<open>s'\<close>.\<close>

definition newCalls ::
  "('w, 'node, 'al, 'ctx, 'is, 'sb, 'plan, 'schema, 'expr, 'prop, 'err) state
   \<Rightarrow> ('w, 'node, 'al, 'ctx, 'is, 'sb, 'plan, 'schema, 'expr, 'prop, 'err) state
   \<Rightarrow> (('node, 'ctx, 'is, 'sb, 'plan, 'schema, 'expr, 'prop, 'err) call \<times> 'err option) list"
where
  "newCalls s0 s' = drop (length (calls s0)) (calls s')"

text \<open>The kinds of call.\<close>

fun is_logicOptimize :: "('node, 'ctx, 'is, 'sb, 'plan, 'schema, 'expr, 'prop, 'err) call \<Rightarrow> bool" where
  "is_logicOptimize (Call_logicOptimize _ _) = True"
| "is_logicOptimize _ = False"

fun is_PredicatePushDown :: "('node, 'ctx, 'is, 'sb, 'plan, 'schema, 'expr, 'prop, 'err) call \<Rightarrow> bool" where
  "is_PredicatePushDown (Call_PredicatePushDown _ _) = True"
| "is_PredicatePushDown _ = False"

fun is_PruneColumnsAndResolveIndices ::
  "('node, 'ctx, 'is, 'sb, 'plan, 'schema, 'expr, 'prop, 'err) call \<Rightarrow> bool" where
  "is_PruneColumnsAndResolveIndices (Call_PruneColumnsAndResolveIndices _ _) = True"
| "is_PruneColumnsAndResolveIndices _ = False"

fun is_convert2PhysicalPlan ::
  "('node, 'ctx, 'is, 'sb, 'plan, 'schema, 'expr, 'prop, 'err) call \<Rightarrow> bool" where
  "is_convert2PhysicalPlan (Call_convert2PhysicalPlan _ _) = True"
| "is_convert2PhysicalPlan _ = False"

fun is_PushLimit :: "('node, 'ctx, 'is, 'sb, 'plan, 'schema, 'expr, 'prop, 'err) call \<Rightarrow> bool" where
  "is_PushLimit (Call_PushLimit _ _) = True"
| "is_PushLimit _ = False"

fun is_Refine :: "('node, 'ctx, 'is, 'sb, 'plan, 'schema, 'expr, 'prop, 'err) call \<Rightarrow> bool" where
  "is_Refine (Call_Refine _) = True"
| "is_Refine _ = False"

text \<open>The calls of the new-pipeline phase, lines 50--62.\<close>

definition is_newPipeline ::
  "('node, 'ctx, 'is, 'sb, 'plan, 'schema, 'expr, 'prop, 'err) call \<Rightarrow> bool" where
  "is_newPipeline c =
     (is_PredicatePushDown c \<or> is_PruneColumnsAndResolveIndices c
      \<or> is_convert2PhysicalPlan c \<or> is_PushLimit c)"

text \<open>The builders handed to \<open>build\<close> in a list of calls, in order.\<close>

definition builderOf ::
  "('node, 'ctx, 'is, 'sb, 'plan, 'schema, 'expr, 'prop, 'err) call
   \<Rightarrow> ('sb, 'ctx, 'is, 'err) planBuilder option" where
  "builderOf c = (case c of Call_build b n \<Rightarrow> Some b | _ \<Rightarrow> None)"

definition buildersOf ::
  "(('node, 'ctx, 'is, 'sb, 'plan, 'schema, 'expr, 'prop, 'err) call \<times> 'err option) list
   \<Rightarrow> ('sb, 'ctx, 'is, 'err) planBuilder list" where
  "buildersOf tr = List.map_filter (\<lambda>ce. builderOf (fst ce)) tr"

section \<open>The store and its unused addresses\<close>

text \<open>
  Every object of the store lies below \<open>brk\<close>: the addresses from \<open>brk\<close> on hold
  nothing, they are unused.
\<close>

definition store_below_brk ::
  "('w, 'node, 'al, 'ctx, 'is, 'sb, 'plan, 'schema, 'expr, 'prop, 'err) state \<Rightarrow> bool" where
  "store_below_brk s = (\<forall>a. brk s \<le> a \<longrightarrow> store (memory s) a = None)"

text \<open>
  A called function may write the objects of the store; it puts no object at an address
  that holds none. (The objects of the store are those that \<open>Optimize\<close> allocates;
  what a called function allocates itself is part of \<open>world\<close>.)
\<close>

definition adds_no_object :: "(('w, 'node, 'al) mem \<Rightarrow> 'r \<times> ('w, 'node, 'al) mem) \<Rightarrow> bool" where
  "adds_no_object f = (\<forall>m a. store m a = None \<longrightarrow> store (snd (f m)) a = None)"

definition env_adds_no_object ::
  "('w, 'node, 'al, 'ctx, 'is, 'sb, 'plan, 'schema, 'expr, 'prop, 'err) env \<Rightarrow> bool" where
  "env_adds_no_object E =
     ((\<forall>nd. adds_no_object (InferType E nd))
      \<and> (\<forall>cx nd. adds_no_object (logicOptimize E cx nd))
      \<and> (\<forall>b nd. adds_no_object (build E b nd))
      \<and> (\<forall>pl ps. adds_no_object (PredicatePushDown E pl ps))
      \<and> (\<forall>lg sch. adds_no_object (PruneColumnsAndResolveIndices E lg sch))
      \<and> (\<forall>lg pr. adds_no_object (convert2PhysicalPlan E lg pr))
      \<and> (\<forall>pl l. adds_no_object (PushLimit E pl l))
      \<and> (\<forall>pl. adds_no_object (Refine E pl)))"

section \<open>A sample environment\<close>

text \<open>
  Concrete collaborators over numbers, used to run the definitions above on concrete
  inputs. Statement \<open>0\<close> is the only \<open>SelectStmt\<close>; \<open>toggle\<close> is \<open>UseNewPlanner\<close>;
  every plan is a \<open>LogicalPlan\<close> or none is, as \<open>logical\<close> says; \<open>failing\<close> selects the
  one function that returns an error (1 \<open>InferType\<close>, 2 \<open>logicOptimize\<close>, 3 \<open>build\<close>,
  4 \<open>PredicatePushDown\<close>, 5 \<open>PruneColumnsAndResolveIndices\<close>, 6 \<open>convert2PhysicalPlan\<close>,
  7 \<open>Refine\<close>; any other number: none), the error being that number. Every writing
  function counts itself in \<open>world\<close>; \<open>build\<close> also fills the builder's map and
  advances its allocator, writing through the two references (\<open>write_obj\<close>: the object
  must be there).
\<close>

definition write_obj ::
  "addr \<Rightarrow> (nat, nat) object \<Rightarrow> (addr \<rightharpoonup> (nat, nat) object) \<Rightarrow> (addr \<rightharpoonup> (nat, nat) object)" where
  "write_obj a ob st = (if st a = None then st else st(a \<mapsto> ob))"

definition tick :: "(nat, nat, nat) mem \<Rightarrow> (nat, nat, nat) mem" where
  "tick m = m\<lparr>world := Suc (world m)\<rparr>"

definition fails :: "nat \<Rightarrow> nat \<Rightarrow> nat option" where
  "fails failing k = (if failing = k then Some k else None)"

definition sample_env ::
  "bool \<Rightarrow> bool \<Rightarrow> nat \<Rightarrow> (nat, nat, nat, unit, unit, unit, nat, nat, unit, unit, nat) env" where
  "sample_env toggle logical failing =
     \<lparr>UseNewPlanner = toggle,
      isSelectStmt = (\<lambda>nd. nd = 0),
      isLogicalPlan = (\<lambda>pl. logical),
      zero_idAllocator = 0,
      InferType = (\<lambda>nd m. (fails failing 1, tick m)),
      logicOptimize = (\<lambda>cx nd m. (fails failing 2, tick m)),
      build = (\<lambda>b nd m.
         ((nd + 10, b\<lparr>err := fails failing 3\<rparr>),
          tick (m\<lparr>store := write_obj (allocator b) (IdAllocator 1)
                                (write_obj (colMapper b) (ColMapper [nd \<mapsto> 0]) (store m))\<rparr>))),
      PredicatePushDown = (\<lambda>pl ps m. ((pl + 1, fails failing 4), tick m)),
      GetSchema = (\<lambda>pl m. pl + world m),
      PruneColumnsAndResolveIndices = (\<lambda>lg sch m. (fails failing 5, tick m)),
      convert2PhysicalPlan = (\<lambda>lg pr m. ((\<lparr>p = lg + 100\<rparr>, fails failing 6), tick m)),
      PushLimit = (\<lambda>pl l m. (pl + 1000, tick m)),
      ToString = (\<lambda>pl m. ''plan''),
      Refine = (\<lambda>pl m. (fails failing 7, tick m))\<rparr>"

text \<open>For \<open>PrepareStmt\<close>: 1 makes \<open>Preprocess\<close> fail, 2 \<open>Validate\<close>.\<close>

definition sample_prep_env :: "nat \<Rightarrow> (nat, nat, nat, unit, unit, nat) prep_env" where
  "sample_prep_env failing =
     \<lparr>SetFlag = (\<lambda>nd m. tick m),
      Preprocess = (\<lambda>nd isc cx m. (fails failing 1, tick m)),
      Validate = (\<lambda>nd b m. (fails failing 2, tick m))\<rparr>"

definition sample_state ::
  "(nat, nat, nat, unit, unit, unit, nat, nat, unit, unit, nat) state" where
  "sample_state = \<lparr>memory = \<lparr>world = 0, store = Map.empty\<rparr>, brk = 0, calls = [], logged = []\<rparr>"

section \<open>Unfolding a run\<close>

lemmas run_defs = Optimize_def buildPlan_def newPipeline_def newPlanBuilder_def alloc_def
  returned_def newCalls_def Let_def

lemmas run_splits = prod.splits option.splits sum.splits if_splits

lemmas Code_defs =
  CodeOneColumn_def CodeSameColumns_def CodeMultiWildCard_def CodeUnsupported_def
  CodeInvalidGroupFuncUse_def CodeIllegalReference_def

lemmas sample_defs = sample_env_def sample_state_def tick_def fails_def write_obj_def

section \<open>A run, by what the called functions return\<close>

lemma Optimize_InferType_fails:
  assumes "InferType E nd (memory s0) = (Some e, m1)"
  shows "Optimize E s0 cx nd sq isc =
     ((None, Some (Trace e)),
      s0\<lparr>memory := m1, calls := calls s0 @ [(Call_InferType nd, Some e)]\<rparr>)"
  using assms by (simp add: Optimize_def buildPlan_def returned_def)

lemma Optimize_logicOptimize_fails:
  assumes "InferType E nd (memory s0) = (None, m1)"
    and "\<not> isSelectStmt E nd \<or> \<not> UseNewPlanner E"
    and "logicOptimize E cx nd m1 = (Some e, m2)"
  shows "Optimize E s0 cx nd sq isc =
     ((None, Some (Trace e)),
      s0\<lparr>memory := m2,
         calls := calls s0 @ [(Call_InferType nd, None), (Call_logicOptimize cx nd, Some e)]\<rparr>)"
  using assms by (auto simp: Optimize_def buildPlan_def returned_def)

lemma buildPlan_build:
  assumes "InferType E nd (memory s0) = (None, m1)"
    and "(if \<not> isSelectStmt E nd \<or> \<not> UseNewPlanner E
          then logicOptimize E cx nd m1 else (None, m1)) = (None, m2)"
    and "build E \<lparr>sb = sq, ctx = cx, is = isc, colMapper = brk s0, allocator = Suc (brk s0),
                  err = None\<rparr> nd
           (m2\<lparr>store := (store m2)(brk s0 \<mapsto> ColMapper Map.empty,
                                    Suc (brk s0) \<mapsto> IdAllocator (zero_idAllocator E))\<rparr>)
         = ((pl, b'), m3)"
  shows "buildPlan E s0 cx nd sq isc =
     ((case err b' of Some e \<Rightarrow> Inl (Trace e) | None \<Rightarrow> Inr pl),
      s0\<lparr>memory := m3, brk := Suc (Suc (brk s0)),
         calls := calls s0 @ (Call_InferType nd, None)
           # (if \<not> isSelectStmt E nd \<or> \<not> UseNewPlanner E
              then [(Call_logicOptimize cx nd, None)] else [])
           @ [(Call_build \<lparr>sb = sq, ctx = cx, is = isc, colMapper = brk s0,
                            allocator = Suc (brk s0), err = None\<rparr> nd, err b')]\<rparr>)"
  using assms
  by (auto simp: buildPlan_def newPlanBuilder_def alloc_def returned_def split: option.split)

lemma Optimize_newPipeline_returns:
  assumes "buildPlan E s0 cx nd sq isc = (Inr pl, s)"
    and "UseNewPlanner E" and "isLogicalPlan E pl"
  shows "Optimize E s0 cx nd sq isc =
    (case PredicatePushDown E pl [] (memory s) of
       ((lg, Some e), m1) \<Rightarrow>
          ((None, Some (Trace e)),
           s\<lparr>memory := m1, calls := calls s @ [(Call_PredicatePushDown pl [], Some e)]\<rparr>)
     | ((lg, None), m1) \<Rightarrow>
         (case PruneColumnsAndResolveIndices E lg (GetSchema E pl m1) m1 of
            (Some e, m2) \<Rightarrow>
              ((None, Some (Trace e)),
               s\<lparr>memory := m2,
                 calls := calls s @
                   [(Call_PredicatePushDown pl [], None),
                    (Call_PruneColumnsAndResolveIndices lg (GetSchema E pl m1), Some e)]\<rparr>)
          | (None, m2) \<Rightarrow>
             (case convert2PhysicalPlan E lg None m2 of
                ((res, Some e), m3) \<Rightarrow>
                  ((None, Some (Trace e)),
                   s\<lparr>memory := m3,
                     calls := calls s @
                       [(Call_PredicatePushDown pl [], None),
                        (Call_PruneColumnsAndResolveIndices lg (GetSchema E pl m1), None),
                        (Call_convert2PhysicalPlan lg None, Some e)]\<rparr>)
              | ((res, None), m3) \<Rightarrow>
                 (case PushLimit E (p res) None m3 of
                    (q, m4) \<Rightarrow>
                      ((Some q, None),
                       s\<lparr>memory := m4,
                         calls := calls s @
                           [(Call_PredicatePushDown pl [], None),
                            (Call_PruneColumnsAndResolveIndices lg (GetSchema E pl m1), None),
                            (Call_convert2PhysicalPlan lg None, None),
                            (Call_PushLimit (p res) None, None)],
                         logged := logged s @ [''[PLAN] '' @ ToString E q m4]\<rparr>)))))"
  using assms
  by (simp add: Optimize_def newPipeline_def returned_def Let_def split: prod.split option.split)

lemma Optimize_Refine_returns:
  assumes "buildPlan E s0 cx nd sq isc = (Inr pl, s)"
    and "\<not> (UseNewPlanner E \<and> isLogicalPlan E pl)"
    and "Refine E pl (memory s) = (e, m)"
  shows "Optimize E s0 cx nd sq isc =
     ((case e of None \<Rightarrow> (Some pl, None) | Some x \<Rightarrow> (None, Some (Trace x))),
      s\<lparr>memory := m, calls := calls s @ [(Call_Refine pl, e)]\<rparr>)"
  using assms
  by (auto simp: Optimize_def returned_def split: option.split)

section \<open>The new pipeline, step by step\<close>

text \<open>
  C1. On the new-pipeline path, that is when the prefix of \<open>Optimize\<close> has built the plan
  \<open>pl\<close>, \<open>UseNewPlanner\<close> is on and \<open>pl\<close> is a \<open>LogicalPlan\<close>, and when each step
  succeeds, \<open>Optimize\<close> makes exactly these calls after the build, in this order:
  \<open>PredicatePushDown\<close> on \<open>pl\<close> with no predicates (nil), giving the plan \<open>lg\<close>;
  \<open>PruneColumnsAndResolveIndices\<close> on \<open>lg\<close> with the schema of the built plan,
  \<open>p.GetSchema()\<close>, read after the push-down; \<open>convert2PhysicalPlan\<close> on \<open>lg\<close> with no
  required property (nil), giving \<open>res\<close>; \<open>PushLimit\<close> on \<open>res.p\<close> with nil. It returns
  the plan that \<open>PushLimit\<close> returned, with a nil error.
\<close>

theorem Optimize_new_pipeline_sequence:
  assumes built: "buildPlan E s0 cx nd sq isc = (Inr pl, s)"
    and new: "UseNewPlanner E" "isLogicalPlan E pl"
    and ppd: "PredicatePushDown E pl [] (memory s) = ((lg, None), m1)"
    and prune: "PruneColumnsAndResolveIndices E lg (GetSchema E pl m1) m1 = (None, m2)"
    and conv: "convert2PhysicalPlan E lg None m2 = ((res, None), m3)"
    and lim: "PushLimit E (p res) None m3 = (q, m4)"
  shows "Optimize E s0 cx nd sq isc =
      ((Some q, None),
       s\<lparr>memory := m4,
         calls := calls s @
           [(Call_PredicatePushDown pl [], None),
            (Call_PruneColumnsAndResolveIndices lg (GetSchema E pl m1), None),
            (Call_convert2PhysicalPlan lg None, None),
            (Call_PushLimit (p res) None, None)],
         logged := logged s @ [''[PLAN] '' @ ToString E q m4]\<rparr>)"
  using assms by (simp add: Optimize_def newPipeline_def returned_def Let_def)

theorem Optimize_new_pipeline_sequence_witness:
  "fst (Optimize (sample_env True True 0) sample_state () 0 () ()) = (Some 1111, None)
   \<and> newCalls (snd (buildPlan (sample_env True True 0) sample_state () 0 () ()))
        (snd (Optimize (sample_env True True 0) sample_state () 0 () ())) =
      [(Call_PredicatePushDown 10 [], None),
       (Call_PruneColumnsAndResolveIndices 11 13, None),
       (Call_convert2PhysicalPlan 11 None, None),
       (Call_PushLimit 111 None, None)]"
proof -
  let ?E = "sample_env True True 0"
  let ?s = "snd (buildPlan ?E sample_state () 0 () ())"
  let ?m1 = "snd (PredicatePushDown ?E 10 [] (memory ?s))"
  let ?m2 = "snd (PruneColumnsAndResolveIndices ?E 11 (GetSchema ?E 10 ?m1) ?m1)"
  let ?m3 = "snd (convert2PhysicalPlan ?E 11 None ?m2)"
  let ?m4 = "snd (PushLimit ?E 111 None ?m3)"
  have built: "buildPlan ?E sample_state () 0 () () = (Inr 10, ?s)"
    by (simp add: buildPlan_def newPlanBuilder_def alloc_def returned_def Let_def sample_defs)
  have new: "UseNewPlanner ?E" "isLogicalPlan ?E 10"
    by (simp_all add: sample_defs)
  have ppd: "PredicatePushDown ?E 10 [] (memory ?s) = ((11, None), ?m1)"
    by (simp add: sample_defs)
  have prune: "PruneColumnsAndResolveIndices ?E 11 (GetSchema ?E 10 ?m1) ?m1 = (None, ?m2)"
    by (simp add: sample_defs)
  have conv: "convert2PhysicalPlan ?E 11 None ?m2 = ((\<lparr>p = 111\<rparr>, None), ?m3)"
    by (simp add: sample_defs)
  have lim: "PushLimit ?E (p \<lparr>p = 111\<rparr>) None ?m3 = (1111, ?m4)"
    by (simp add: sample_defs)
  have sch: "GetSchema ?E 10 ?m1 = 13"
    by (simp add: buildPlan_def newPlanBuilder_def alloc_def returned_def Let_def sample_defs)
  from Optimize_new_pipeline_sequence [OF built new ppd prune conv lim] sch
  show ?thesis by (simp add: newCalls_def)
qed

section \<open>The first failure ends the run\<close>

lemma failing_call_is_last:
  assumes "list_all (\<lambda>ce. snd ce = None) (butlast tr)" and "tr = pre @ (c, Some e) # post"
  shows "post = [] \<and> last tr = (c, Some e)"
proof (cases "post = []")
  case True
  with assms(2) show ?thesis by simp
next
  case False
  with assms(2) have "butlast tr = pre @ (c, Some e) # butlast post"
    by (simp add: butlast_append)
  with assms(1) show ?thesis by simp
qed

lemma Optimize_trace_shape:
  assumes "Optimize E s0 cx nd sq isc = ((rp, re), s')"
  shows "newCalls s0 s' \<noteq> []"
    and "list_all (\<lambda>ce. snd ce = None) (butlast (newCalls s0 s'))"
    and "(case snd (last (newCalls s0 s')) of
            Some e \<Rightarrow> rp = None \<and> re = Some (Trace e)
          | None \<Rightarrow> rp \<noteq> None \<and> re = None)"
  using assms
  by (auto simp: run_defs split: run_splits)


text \<open>
  C2. For every input and every run of \<open>Optimize\<close>, by what the called functions
  return. If \<open>InferType\<close> returns an error; if \<open>logicOptimize\<close>, run because the
  statement is not a \<open>SelectStmt\<close> or the toggle is off, returns one; if \<open>build\<close>, run on
  the fresh builder, leaves \<open>builder.err\<close> set; if, on the new-pipeline path,
  \<open>PredicatePushDown\<close>, \<open>PruneColumnsAndResolveIndices\<close> or \<open>convert2PhysicalPlan\<close>
  returns one; if, on the other path, \<open>Refine\<close> returns one: then \<open>Optimize\<close> returns
  the nil plan with that error wrapped by \<open>errors.Trace\<close>, the memory is the one that
  call left, and that call is the last of the run. In the record of calls, a call that
  returned an error is the last one; and whenever \<open>Optimize\<close> returns an error, the plan
  it returns is nil and the error is the wrapped error of the last call.
\<close>

theorem Optimize_first_failure:
  assumes run: "Optimize E s0 cx nd sq isc = ((rp, re), s')"
  shows "(\<forall>e m1. InferType E nd (memory s0) = (Some e, m1) \<longrightarrow>
            ((rp, re), s') =
              ((None, Some (Trace e)),
               s0\<lparr>memory := m1, calls := calls s0 @ [(Call_InferType nd, Some e)]\<rparr>))
       \<and> (\<forall>e m1 m2. InferType E nd (memory s0) = (None, m1) \<longrightarrow>
            (\<not> isSelectStmt E nd \<or> \<not> UseNewPlanner E) \<longrightarrow>
            logicOptimize E cx nd m1 = (Some e, m2) \<longrightarrow>
            ((rp, re), s') =
              ((None, Some (Trace e)),
               s0\<lparr>memory := m2,
                  calls := calls s0 @ [(Call_InferType nd, None),
                                       (Call_logicOptimize cx nd, Some e)]\<rparr>))
       \<and> (\<forall>e m1 m2 pl b' m3. InferType E nd (memory s0) = (None, m1) \<longrightarrow>
            (if \<not> isSelectStmt E nd \<or> \<not> UseNewPlanner E
             then logicOptimize E cx nd m1 else (None, m1)) = (None, m2) \<longrightarrow>
            build E \<lparr>sb = sq, ctx = cx, is = isc, colMapper = brk s0, allocator = Suc (brk s0),
                     err = None\<rparr> nd
              (m2\<lparr>store := (store m2)(brk s0 \<mapsto> ColMapper Map.empty,
                                       Suc (brk s0) \<mapsto> IdAllocator (zero_idAllocator E))\<rparr>)
              = ((pl, b'), m3) \<longrightarrow>
            err b' = Some e \<longrightarrow>
            ((rp, re), s') =
              ((None, Some (Trace e)),
               s0\<lparr>memory := m3, brk := Suc (Suc (brk s0)),
                  calls := calls s0 @ (Call_InferType nd, None)
                    # (if \<not> isSelectStmt E nd \<or> \<not> UseNewPlanner E
                       then [(Call_logicOptimize cx nd, None)] else [])
                    @ [(Call_build \<lparr>sb = sq, ctx = cx, is = isc, colMapper = brk s0,
                                     allocator = Suc (brk s0), err = None\<rparr> nd, Some e)]\<rparr>))
       \<and> (\<forall>pl s lg e m1. buildPlan E s0 cx nd sq isc = (Inr pl, s) \<longrightarrow>
            UseNewPlanner E \<longrightarrow> isLogicalPlan E pl \<longrightarrow>
            PredicatePushDown E pl [] (memory s) = ((lg, Some e), m1) \<longrightarrow>
            ((rp, re), s') =
              ((None, Some (Trace e)),
               s\<lparr>memory := m1, calls := calls s @ [(Call_PredicatePushDown pl [], Some e)]\<rparr>))
       \<and> (\<forall>pl s lg e m1 m2. buildPlan E s0 cx nd sq isc = (Inr pl, s) \<longrightarrow>
            UseNewPlanner E \<longrightarrow> isLogicalPlan E pl \<longrightarrow>
            PredicatePushDown E pl [] (memory s) = ((lg, None), m1) \<longrightarrow>
            PruneColumnsAndResolveIndices E lg (GetSchema E pl m1) m1 = (Some e, m2) \<longrightarrow>
            ((rp, re), s') =
              ((None, Some (Trace e)),
               s\<lparr>memory := m2,
                 calls := calls s @
                   [(Call_PredicatePushDown pl [], None),
                    (Call_PruneColumnsAndResolveIndices lg (GetSchema E pl m1), Some e)]\<rparr>))
       \<and> (\<forall>pl s lg res e m1 m2 m3. buildPlan E s0 cx nd sq isc = (Inr pl, s) \<longrightarrow>
            UseNewPlanner E \<longrightarrow> isLogicalPlan E pl \<longrightarrow>
            PredicatePushDown E pl [] (memory s) = ((lg, None), m1) \<longrightarrow>
            PruneColumnsAndResolveIndices E lg (GetSchema E pl m1) m1 = (None, m2) \<longrightarrow>
            convert2PhysicalPlan E lg None m2 = ((res, Some e), m3) \<longrightarrow>
            ((rp, re), s') =
              ((None, Some (Trace e)),
               s\<lparr>memory := m3,
                 calls := calls s @
                   [(Call_PredicatePushDown pl [], None),
                    (Call_PruneColumnsAndResolveIndices lg (GetSchema E pl m1), None),
                    (Call_convert2PhysicalPlan lg None, Some e)]\<rparr>))
       \<and> (\<forall>pl s e m. buildPlan E s0 cx nd sq isc = (Inr pl, s) \<longrightarrow>
            \<not> (UseNewPlanner E \<and> isLogicalPlan E pl) \<longrightarrow>
            Refine E pl (memory s) = (Some e, m) \<longrightarrow>
            ((rp, re), s') =
              ((None, Some (Trace e)),
               s\<lparr>memory := m, calls := calls s @ [(Call_Refine pl, Some e)]\<rparr>))
       \<and> (\<forall>pre c e post. newCalls s0 s' = pre @ (c, Some e) # post \<longrightarrow>
            post = [] \<and> rp = None \<and> re = Some (Trace e))
       \<and> (\<forall>x. re = Some x \<longrightarrow>
            rp = None \<and> (\<exists>c e. last (newCalls s0 s') = (c, Some e) \<and> x = Trace e))"
proof -
  have c1: "((rp, re), s') =
              ((None, Some (Trace e)),
               s0\<lparr>memory := m1, calls := calls s0 @ [(Call_InferType nd, Some e)]\<rparr>)"
    if "InferType E nd (memory s0) = (Some e, m1)" for e m1
    using Optimize_InferType_fails [OF that, of cx sq isc] run by simp
  have c2: "((rp, re), s') =
              ((None, Some (Trace e)),
               s0\<lparr>memory := m2,
                  calls := calls s0 @ [(Call_InferType nd, None),
                                       (Call_logicOptimize cx nd, Some e)]\<rparr>)"
    if "InferType E nd (memory s0) = (None, m1)"
       "\<not> isSelectStmt E nd \<or> \<not> UseNewPlanner E"
       "logicOptimize E cx nd m1 = (Some e, m2)" for e m1 m2
    using Optimize_logicOptimize_fails [OF that, of sq isc] run by simp
  have c3: "((rp, re), s') =
              ((None, Some (Trace e)),
               s0\<lparr>memory := m3, brk := Suc (Suc (brk s0)),
                  calls := calls s0 @ (Call_InferType nd, None)
                    # (if \<not> isSelectStmt E nd \<or> \<not> UseNewPlanner E
                       then [(Call_logicOptimize cx nd, None)] else [])
                    @ [(Call_build \<lparr>sb = sq, ctx = cx, is = isc, colMapper = brk s0,
                                     allocator = Suc (brk s0), err = None\<rparr> nd, Some e)]\<rparr>)"
    if "InferType E nd (memory s0) = (None, m1)"
       "(if \<not> isSelectStmt E nd \<or> \<not> UseNewPlanner E
             then logicOptimize E cx nd m1 else (None, m1)) = (None, m2)"
       "build E \<lparr>sb = sq, ctx = cx, is = isc, colMapper = brk s0, allocator = Suc (brk s0),
                     err = None\<rparr> nd
              (m2\<lparr>store := (store m2)(brk s0 \<mapsto> ColMapper Map.empty,
                                       Suc (brk s0) \<mapsto> IdAllocator (zero_idAllocator E))\<rparr>)
              = ((pl, b'), m3)"
       "err b' = Some e" for e m1 m2 pl b' m3
    using buildPlan_build [OF that(1,2,3)] that(4) run by (simp add: Optimize_def)
  have c4: "((rp, re), s') =
              ((None, Some (Trace e)),
               s\<lparr>memory := m1, calls := calls s @ [(Call_PredicatePushDown pl [], Some e)]\<rparr>)"
    if "buildPlan E s0 cx nd sq isc = (Inr pl, s)" "UseNewPlanner E" "isLogicalPlan E pl"
       "PredicatePushDown E pl [] (memory s) = ((lg, Some e), m1)" for pl s lg e m1
    using Optimize_newPipeline_returns [OF that(1,2,3)] that(4) run by simp
  have c5: "((rp, re), s') =
              ((None, Some (Trace e)),
               s\<lparr>memory := m2,
                 calls := calls s @
                   [(Call_PredicatePushDown pl [], None),
                    (Call_PruneColumnsAndResolveIndices lg (GetSchema E pl m1), Some e)]\<rparr>)"
    if "buildPlan E s0 cx nd sq isc = (Inr pl, s)" "UseNewPlanner E" "isLogicalPlan E pl"
       "PredicatePushDown E pl [] (memory s) = ((lg, None), m1)"
       "PruneColumnsAndResolveIndices E lg (GetSchema E pl m1) m1 = (Some e, m2)"
    for pl s lg e m1 m2
    using Optimize_newPipeline_returns [OF that(1,2,3)] that(4,5) run by simp
  have c6: "((rp, re), s') =
              ((None, Some (Trace e)),
               s\<lparr>memory := m3,
                 calls := calls s @
                   [(Call_PredicatePushDown pl [], None),
                    (Call_PruneColumnsAndResolveIndices lg (GetSchema E pl m1), None),
                    (Call_convert2PhysicalPlan lg None, Some e)]\<rparr>)"
    if "buildPlan E s0 cx nd sq isc = (Inr pl, s)" "UseNewPlanner E" "isLogicalPlan E pl"
       "PredicatePushDown E pl [] (memory s) = ((lg, None), m1)"
       "PruneColumnsAndResolveIndices E lg (GetSchema E pl m1) m1 = (None, m2)"
       "convert2PhysicalPlan E lg None m2 = ((res, Some e), m3)"
    for pl s lg res e m1 m2 m3
    using Optimize_newPipeline_returns [OF that(1,2,3)] that(4,5,6) run by simp
  have c7: "((rp, re), s') =
              ((None, Some (Trace e)),
               s\<lparr>memory := m, calls := calls s @ [(Call_Refine pl, Some e)]\<rparr>)"
    if "buildPlan E s0 cx nd sq isc = (Inr pl, s)"
       "\<not> (UseNewPlanner E \<and> isLogicalPlan E pl)"
       "Refine E pl (memory s) = (Some e, m)" for pl s e m
    using Optimize_Refine_returns [OF that] run by simp
  note shape = Optimize_trace_shape [OF run]
  have a: "post = [] \<and> rp = None \<and> re = Some (Trace e)"
    if dec: "newCalls s0 s' = pre @ (c, Some e) # post" for pre c e post
  proof -
    from failing_call_is_last [OF shape(2) dec]
    have post: "post = []" and l: "last (newCalls s0 s') = (c, Some e)" by simp_all
    from shape(3) l post show ?thesis by simp
  qed
  have b: "rp = None \<and> (\<exists>c e. last (newCalls s0 s') = (c, Some e) \<and> x = Trace e)"
    if "re = Some x" for x
    using shape(3) that
    by (cases "last (newCalls s0 s')") (auto split: option.splits)
  show ?thesis
    apply (intro conjI)
    subgoal using c1 by blast
    subgoal using c2 by blast
    subgoal using c3 by blast
    subgoal using c4 by blast
    subgoal using c5 by blast
    subgoal using c6 by blast
    subgoal using c7 by blast
    subgoal using a by blast
    subgoal using b by blast
    done
qed

theorem Optimize_first_failure_witness:
  "fst (Optimize (sample_env True True 1) sample_state () 0 () ()) = (None, Some (Trace 1))
   \<and> fst (Optimize (sample_env True True 2) sample_state () 3 () ()) = (None, Some (Trace 2))
   \<and> fst (Optimize (sample_env True True 3) sample_state () 0 () ()) = (None, Some (Trace 3))
   \<and> fst (Optimize (sample_env True True 4) sample_state () 0 () ()) = (None, Some (Trace 4))
   \<and> fst (Optimize (sample_env True True 5) sample_state () 0 () ()) = (None, Some (Trace 5))
   \<and> fst (Optimize (sample_env True True 6) sample_state () 0 () ()) = (None, Some (Trace 6))
   \<and> fst (Optimize (sample_env True False 7) sample_state () 0 () ()) = (None, Some (Trace 7))
   \<and> newCalls sample_state (snd (Optimize (sample_env True True 5) sample_state () 0 () ())) =
       [(Call_InferType 0, None),
        (Call_build \<lparr>sb = (), ctx = (), is = (), colMapper = 0, allocator = 1, err = None\<rparr> 0, None),
        (Call_PredicatePushDown 10 [], None)]
       @ (Call_PruneColumnsAndResolveIndices 11 13, Some 5) # []"
proof -
  let ?s0 = "sample_state"
  let ?B = "\<lparr>sb = (), ctx = (), is = (), colMapper = 0, allocator = 1, err = None\<rparr>"
  have pair: "x = ((fst (fst x), snd (fst x)), snd x)" for x :: "('a \<times> 'b) \<times> 'c"
    by simp
  \<comment> \<open>1: \<open>InferType\<close> fails\<close>
  let ?E1 = "sample_env True True 1"
  let ?r1 = "Optimize ?E1 ?s0 () 0 () ()"
  have i1: "InferType ?E1 0 (memory ?s0) = (Some 1, snd (InferType ?E1 0 (memory ?s0)))"
    by (simp add: sample_defs)
  from Optimize_first_failure [OF pair [of ?r1], THEN conjunct1, rule_format, OF i1]
  have w1: "fst ?r1 = (None, Some (Trace 1))"
    by (simp add: prod_eq_iff)
  \<comment> \<open>2: \<open>logicOptimize\<close> fails, on a statement that is no \<open>SelectStmt\<close>\<close>
  let ?E2 = "sample_env True True 2"
  let ?r2 = "Optimize ?E2 ?s0 () 3 () ()"
  let ?m21 = "snd (InferType ?E2 3 (memory ?s0))"
  have i2: "InferType ?E2 3 (memory ?s0) = (None, ?m21)"
    by (simp add: sample_defs)
  have k2: "\<not> isSelectStmt ?E2 3 \<or> \<not> UseNewPlanner ?E2"
    by (simp add: sample_defs)
  have l2: "logicOptimize ?E2 () 3 ?m21 = (Some 2, snd (logicOptimize ?E2 () 3 ?m21))"
    by (simp add: sample_defs)
  from Optimize_first_failure [OF pair [of ?r2], THEN conjunct2, THEN conjunct1, rule_format,
         OF i2 k2 l2]
  have w2: "fst ?r2 = (None, Some (Trace 2))"
    by (simp add: prod_eq_iff)
  \<comment> \<open>3: \<open>build\<close> sets \<open>builder.err\<close>\<close>
  let ?E3 = "sample_env True True 3"
  let ?r3 = "Optimize ?E3 ?s0 () 0 () ()"
  let ?m31 = "snd (InferType ?E3 0 (memory ?s0))"
  let ?M3 = "?m31\<lparr>store := (store ?m31)(brk ?s0 \<mapsto> ColMapper Map.empty,
                 Suc (brk ?s0) \<mapsto> IdAllocator (zero_idAllocator ?E3))\<rparr>"
  let ?B3 = "\<lparr>sb = (), ctx = (), is = (), colMapper = brk ?s0, allocator = Suc (brk ?s0),
              err = None :: nat option\<rparr>"
  have i3: "InferType ?E3 0 (memory ?s0) = (None, ?m31)"
    by (simp add: sample_defs)
  have l3: "(if \<not> isSelectStmt ?E3 0 \<or> \<not> UseNewPlanner ?E3
             then logicOptimize ?E3 () 0 ?m31 else (None, ?m31)) = (None, ?m31)"
    by (simp add: sample_defs)
  have b3: "build ?E3 ?B3 0 ?M3 = ((10, ?B3\<lparr>err := Some 3\<rparr>), snd (build ?E3 ?B3 0 ?M3))"
    by (simp add: sample_defs)
  have e3: "err (?B3\<lparr>err := Some 3\<rparr>) = Some 3"
    by simp
  from Optimize_first_failure [OF pair [of ?r3], THEN conjunct2, THEN conjunct2, THEN conjunct1,
         rule_format, OF i3 l3 b3 e3]
  have w3: "fst ?r3 = (None, Some (Trace 3))"
    by (simp add: prod_eq_iff)
  \<comment> \<open>4: \<open>PredicatePushDown\<close> fails\<close>
  let ?E4 = "sample_env True True 4"
  let ?r4 = "Optimize ?E4 ?s0 () 0 () ()"
  let ?s4 = "snd (buildPlan ?E4 ?s0 () 0 () ())"
  have p4: "buildPlan ?E4 ?s0 () 0 () () = (Inr 10, ?s4)"
    by (simp add: buildPlan_def newPlanBuilder_def alloc_def returned_def Let_def sample_defs)
  have n4: "UseNewPlanner ?E4" "isLogicalPlan ?E4 10"
    by (simp_all add: sample_defs)
  have d4: "PredicatePushDown ?E4 10 [] (memory ?s4)
            = ((11, Some 4), snd (PredicatePushDown ?E4 10 [] (memory ?s4)))"
    by (simp add: sample_defs)
  from Optimize_first_failure [OF pair [of ?r4], THEN conjunct2, THEN conjunct2, THEN conjunct2,
         THEN conjunct1, rule_format, OF p4 n4 d4]
  have w4: "fst ?r4 = (None, Some (Trace 4))"
    by (simp add: prod_eq_iff)
  \<comment> \<open>5: \<open>PruneColumnsAndResolveIndices\<close> fails\<close>
  let ?E5 = "sample_env True True 5"
  let ?r5 = "Optimize ?E5 ?s0 () 0 () ()"
  let ?s5 = "snd (buildPlan ?E5 ?s0 () 0 () ())"
  let ?m51 = "snd (PredicatePushDown ?E5 10 [] (memory ?s5))"
  have p5: "buildPlan ?E5 ?s0 () 0 () () = (Inr 10, ?s5)"
    by (simp add: buildPlan_def newPlanBuilder_def alloc_def returned_def Let_def sample_defs)
  have n5: "UseNewPlanner ?E5" "isLogicalPlan ?E5 10"
    by (simp_all add: sample_defs)
  have d5: "PredicatePushDown ?E5 10 [] (memory ?s5) = ((11, None), ?m51)"
    by (simp add: sample_defs)
  have u5: "PruneColumnsAndResolveIndices ?E5 11 (GetSchema ?E5 10 ?m51) ?m51
            = (Some 5, snd (PruneColumnsAndResolveIndices ?E5 11 (GetSchema ?E5 10 ?m51) ?m51))"
    by (simp add: sample_defs)
  have g5: "GetSchema ?E5 10 ?m51 = 13"
    by (simp add: buildPlan_def newPlanBuilder_def alloc_def returned_def Let_def sample_defs)
  have c5: "calls ?s5 = [(Call_InferType 0, None), (Call_build ?B 0, None)]"
    by (simp add: buildPlan_def newPlanBuilder_def alloc_def returned_def Let_def sample_defs)
  from Optimize_first_failure [OF pair [of ?r5], THEN conjunct2, THEN conjunct2, THEN conjunct2,
         THEN conjunct2, THEN conjunct1, rule_format, OF p5 n5 d5 u5] g5 c5
  have w5: "fst ?r5 = (None, Some (Trace 5))"
    and t5: "newCalls ?s0 (snd ?r5) =
       [(Call_InferType 0, None), (Call_build ?B 0, None), (Call_PredicatePushDown 10 [], None)]
       @ (Call_PruneColumnsAndResolveIndices 11 13, Some 5) # []"
    by (simp_all add: prod_eq_iff newCalls_def sample_state_def)
  \<comment> \<open>6: \<open>convert2PhysicalPlan\<close> fails\<close>
  let ?E6 = "sample_env True True 6"
  let ?r6 = "Optimize ?E6 ?s0 () 0 () ()"
  let ?s6 = "snd (buildPlan ?E6 ?s0 () 0 () ())"
  let ?m61 = "snd (PredicatePushDown ?E6 10 [] (memory ?s6))"
  let ?m62 = "snd (PruneColumnsAndResolveIndices ?E6 11 (GetSchema ?E6 10 ?m61) ?m61)"
  have p6: "buildPlan ?E6 ?s0 () 0 () () = (Inr 10, ?s6)"
    by (simp add: buildPlan_def newPlanBuilder_def alloc_def returned_def Let_def sample_defs)
  have n6: "UseNewPlanner ?E6" "isLogicalPlan ?E6 10"
    by (simp_all add: sample_defs)
  have d6: "PredicatePushDown ?E6 10 [] (memory ?s6) = ((11, None), ?m61)"
    by (simp add: sample_defs)
  have u6: "PruneColumnsAndResolveIndices ?E6 11 (GetSchema ?E6 10 ?m61) ?m61 = (None, ?m62)"
    by (simp add: sample_defs)
  have v6: "convert2PhysicalPlan ?E6 11 None ?m62
            = ((\<lparr>p = 111\<rparr>, Some 6), snd (convert2PhysicalPlan ?E6 11 None ?m62))"
    by (simp add: sample_defs)
  from Optimize_first_failure [OF pair [of ?r6], THEN conjunct2, THEN conjunct2, THEN conjunct2,
         THEN conjunct2, THEN conjunct2, THEN conjunct1, rule_format, OF p6 n6 d6 u6 v6]
  have w6: "fst ?r6 = (None, Some (Trace 6))"
    by (simp add: prod_eq_iff)
  \<comment> \<open>7: \<open>Refine\<close> fails\<close>
  let ?E7 = "sample_env True False 7"
  let ?r7 = "Optimize ?E7 ?s0 () 0 () ()"
  let ?s7 = "snd (buildPlan ?E7 ?s0 () 0 () ())"
  have p7: "buildPlan ?E7 ?s0 () 0 () () = (Inr 10, ?s7)"
    by (simp add: buildPlan_def newPlanBuilder_def alloc_def returned_def Let_def sample_defs)
  have n7: "\<not> (UseNewPlanner ?E7 \<and> isLogicalPlan ?E7 10)"
    by (simp add: sample_defs)
  have f7: "Refine ?E7 10 (memory ?s7) = (Some 7, snd (Refine ?E7 10 (memory ?s7)))"
    by (simp add: sample_defs)
  from Optimize_first_failure [OF pair [of ?r7], THEN conjunct2, THEN conjunct2, THEN conjunct2,
         THEN conjunct2, THEN conjunct2, THEN conjunct2, THEN conjunct1, rule_format, OF p7 n7 f7]
  have w7: "fst ?r7 = (None, Some (Trace 7))"
    by (simp add: prod_eq_iff)
  from w1 w2 w3 w4 w5 w6 w7 t5 show ?thesis
    by simp
qed

section \<open>The legacy path and the test of line 33\<close>

lemma Optimize_legacy_calls:
  assumes "\<not> UseNewPlanner E" and "Optimize E s0 cx nd sq isc = (r, s')"
  shows "list_all (\<lambda>c. \<not> is_newPipeline c) (map fst (newCalls s0 s'))"
  using assms
  by (auto simp: run_defs is_newPipeline_def split: run_splits)

lemma Optimize_legacy_Refine:
  assumes "\<not> UseNewPlanner E" and "buildPlan E s0 cx nd sq isc = (Inr pl, s)"
    and "Refine E pl (memory s) = (e, m)"
  shows "Optimize E s0 cx nd sq isc =
     ((case e of None \<Rightarrow> (Some pl, None) | Some x \<Rightarrow> (None, Some (Trace x))),
      s\<lparr>memory := m, calls := calls s @ [(Call_Refine pl, e)]\<rparr>)"
  using assms
  by (simp add: Optimize_def returned_def split: option.split)

text \<open>
  C3. When \<open>UseNewPlanner\<close> is false, no run of \<open>Optimize\<close> calls \<open>PredicatePushDown\<close>,
  \<open>PruneColumnsAndResolveIndices\<close> or \<open>convert2PhysicalPlan\<close>. Instead, once the plan
  \<open>pl\<close> is built, the one further call is \<open>Refine\<close> on \<open>pl\<close>; when it succeeds
  \<open>Optimize\<close> returns \<open>pl\<close> with a nil error, and when it fails the nil plan with the
  wrapped error.
\<close>

theorem Optimize_legacy_when_toggle_off:
  assumes off: "\<not> UseNewPlanner E" and run: "Optimize E s0 cx nd sq isc = (r, s')"
  shows "list_all (\<lambda>c. \<not> is_PredicatePushDown c \<and> \<not> is_PruneColumnsAndResolveIndices c
                       \<and> \<not> is_convert2PhysicalPlan c)
           (map fst (newCalls s0 s'))
       \<and> (\<forall>pl s e m. buildPlan E s0 cx nd sq isc = (Inr pl, s) \<and> Refine E pl (memory s) = (e, m) \<longrightarrow>
             s' = s\<lparr>memory := m, calls := calls s @ [(Call_Refine pl, e)]\<rparr>
             \<and> r = (case e of None \<Rightarrow> (Some pl, None) | Some x \<Rightarrow> (None, Some (Trace x))))"
proof -
  from Optimize_legacy_calls [OF off run]
  have a: "list_all (\<lambda>c. \<not> is_PredicatePushDown c \<and> \<not> is_PruneColumnsAndResolveIndices c
                       \<and> \<not> is_convert2PhysicalPlan c) (map fst (newCalls s0 s'))"
    by (simp add: is_newPipeline_def list_all_iff)
  have b: "s' = s\<lparr>memory := m, calls := calls s @ [(Call_Refine pl, e)]\<rparr>
             \<and> r = (case e of None \<Rightarrow> (Some pl, None) | Some x \<Rightarrow> (None, Some (Trace x)))"
    if "buildPlan E s0 cx nd sq isc = (Inr pl, s)" "Refine E pl (memory s) = (e, m)" for pl s e m
    using Optimize_legacy_Refine [OF off that] run by simp
  from a b show ?thesis by blast
qed

theorem Optimize_legacy_when_toggle_off_witness:
  "fst (Optimize (sample_env False True 0) sample_state () 0 () ()) = (Some 10, None)
   \<and> map fst (newCalls sample_state (snd (Optimize (sample_env False True 0) sample_state () 0 () ()))) =
       [Call_InferType 0, Call_logicOptimize () 0,
        Call_build \<lparr>sb = (), ctx = (), is = (), colMapper = 0, allocator = 1, err = None\<rparr> 0,
        Call_Refine 10]"
proof -
  let ?E = "sample_env False True 0"
  let ?run = "Optimize ?E sample_state () 0 () ()"
  let ?s = "snd (buildPlan ?E sample_state () 0 () ())"
  let ?m = "snd (Refine ?E 10 (memory ?s))"
  have off: "\<not> UseNewPlanner ?E"
    by (simp add: sample_defs)
  have run: "?run = (fst ?run, snd ?run)"
    by simp
  have built: "buildPlan ?E sample_state () 0 () () = (Inr 10, ?s)"
    by (simp add: buildPlan_def newPlanBuilder_def alloc_def returned_def Let_def sample_defs)
  have ref: "Refine ?E 10 (memory ?s) = (None, ?m)"
    by (simp add: sample_defs)
  from Optimize_legacy_when_toggle_off [OF off run, THEN conjunct2, rule_format,
         OF conjI [OF built ref]]
  have "snd ?run = ?s\<lparr>memory := ?m, calls := calls ?s @ [(Call_Refine 10, None)]\<rparr>
        \<and> fst ?run = (Some 10, None)"
    by simp
  then show ?thesis
    by (simp add: buildPlan_def newPlanBuilder_def alloc_def returned_def newCalls_def Let_def
        sample_defs)
qed

lemma Optimize_logicOptimize_calls:
  assumes "InferType E nd (memory s0) = (None, m1)" and "Optimize E s0 cx nd sq isc = (r, s')"
  shows "(list_ex is_logicOptimize (map fst (newCalls s0 s'))
            \<longleftrightarrow> (\<not> isSelectStmt E nd \<or> \<not> UseNewPlanner E))
       \<and> (list_ex is_logicOptimize (map fst (newCalls s0 s')) \<longrightarrow>
            take 2 (map fst (newCalls s0 s')) = [Call_InferType nd, Call_logicOptimize cx nd]
            \<and> \<not> list_ex is_logicOptimize (drop 2 (map fst (newCalls s0 s'))))"
  using assms
  by (auto simp: run_defs split: run_splits)

text \<open>
  C4. In a run of \<open>Optimize\<close> that gets past type inference (line 30 returns otherwise),
  \<open>logicOptimize\<close> is called if and only if the statement is not a \<open>SelectStmt\<close> or
  \<open>UseNewPlanner\<close> is false: the test reads the kind of the statement and the toggle,
  nothing else. When it is called, it is called on \<open>ctx\<close> and the statement, as the
  second call of the run, right after \<open>InferType\<close> and so before \<open>build\<close>, and it is
  not called again. By what it returns: it is run on the memory that \<open>InferType\<close> left;
  its error is the result of \<open>Optimize\<close>, wrapped, with the memory it left; when it
  returns none, \<open>build\<close> is run next, on the memory that \<open>logicOptimize\<close> left (with
  the fresh objects of the builder). For a \<open>SelectStmt\<close> with the toggle on,
  \<open>build\<close> is run on the memory that \<open>InferType\<close> left: \<open>logicOptimize\<close> is not
  applied.
\<close>

theorem Optimize_logicOptimize_iff:
  assumes inf: "InferType E nd (memory s0) = (None, m1)"
    and run: "Optimize E s0 cx nd sq isc = (r, s')"
  shows "(list_ex is_logicOptimize (map fst (newCalls s0 s'))
            \<longleftrightarrow> (\<not> isSelectStmt E nd \<or> \<not> UseNewPlanner E))
       \<and> (list_ex is_logicOptimize (map fst (newCalls s0 s')) \<longrightarrow>
            take 2 (map fst (newCalls s0 s')) = [Call_InferType nd, Call_logicOptimize cx nd]
            \<and> \<not> list_ex is_logicOptimize (drop 2 (map fst (newCalls s0 s'))))
       \<and> (\<forall>e m2. (\<not> isSelectStmt E nd \<or> \<not> UseNewPlanner E) \<longrightarrow>
            logicOptimize E cx nd m1 = (Some e, m2) \<longrightarrow>
            (r, s') =
              ((None, Some (Trace e)),
               s0\<lparr>memory := m2,
                  calls := calls s0 @ [(Call_InferType nd, None),
                                       (Call_logicOptimize cx nd, Some e)]\<rparr>))
       \<and> (\<forall>m2 pl b' m3. (\<not> isSelectStmt E nd \<or> \<not> UseNewPlanner E) \<longrightarrow>
            logicOptimize E cx nd m1 = (None, m2) \<longrightarrow>
            build E \<lparr>sb = sq, ctx = cx, is = isc, colMapper = brk s0, allocator = Suc (brk s0),
                     err = None\<rparr> nd
              (m2\<lparr>store := (store m2)(brk s0 \<mapsto> ColMapper Map.empty,
                                       Suc (brk s0) \<mapsto> IdAllocator (zero_idAllocator E))\<rparr>)
              = ((pl, b'), m3) \<longrightarrow>
            buildPlan E s0 cx nd sq isc =
              ((case err b' of Some e \<Rightarrow> Inl (Trace e) | None \<Rightarrow> Inr pl),
               s0\<lparr>memory := m3, brk := Suc (Suc (brk s0)),
                  calls := calls s0 @
                    [(Call_InferType nd, None), (Call_logicOptimize cx nd, None),
                     (Call_build \<lparr>sb = sq, ctx = cx, is = isc, colMapper = brk s0, allocator = Suc (brk s0),
                     err = None\<rparr> nd, err b')]\<rparr>))
       \<and> (\<forall>pl b' m3. isSelectStmt E nd \<longrightarrow> UseNewPlanner E \<longrightarrow>
            build E \<lparr>sb = sq, ctx = cx, is = isc, colMapper = brk s0, allocator = Suc (brk s0),
                     err = None\<rparr> nd
              (m1\<lparr>store := (store m1)(brk s0 \<mapsto> ColMapper Map.empty,
                                       Suc (brk s0) \<mapsto> IdAllocator (zero_idAllocator E))\<rparr>)
              = ((pl, b'), m3) \<longrightarrow>
            buildPlan E s0 cx nd sq isc =
              ((case err b' of Some e \<Rightarrow> Inl (Trace e) | None \<Rightarrow> Inr pl),
               s0\<lparr>memory := m3, brk := Suc (Suc (brk s0)),
                  calls := calls s0 @
                    [(Call_InferType nd, None),
                     (Call_build \<lparr>sb = sq, ctx = cx, is = isc, colMapper = brk s0, allocator = Suc (brk s0),
                     err = None\<rparr> nd, err b')]\<rparr>))"
proof -
  note old = Optimize_logicOptimize_calls [OF inf run]
  have c1: "(r, s') =
              ((None, Some (Trace e)),
               s0\<lparr>memory := m2,
                  calls := calls s0 @ [(Call_InferType nd, None),
                                       (Call_logicOptimize cx nd, Some e)]\<rparr>)"
    if "\<not> isSelectStmt E nd \<or> \<not> UseNewPlanner E" "logicOptimize E cx nd m1 = (Some e, m2)"
    for e m2
    using Optimize_logicOptimize_fails [OF inf that, of sq isc] run by simp
  have c2: "buildPlan E s0 cx nd sq isc =
              ((case err b' of Some e \<Rightarrow> Inl (Trace e) | None \<Rightarrow> Inr pl),
               s0\<lparr>memory := m3, brk := Suc (Suc (brk s0)),
                  calls := calls s0 @
                    [(Call_InferType nd, None), (Call_logicOptimize cx nd, None),
                     (Call_build \<lparr>sb = sq, ctx = cx, is = isc, colMapper = brk s0, allocator = Suc (brk s0),
                     err = None\<rparr> nd, err b')]\<rparr>)"
    if k: "\<not> isSelectStmt E nd \<or> \<not> UseNewPlanner E"
      and l: "logicOptimize E cx nd m1 = (None, m2)"
      and b: "build E \<lparr>sb = sq, ctx = cx, is = isc, colMapper = brk s0, allocator = Suc (brk s0),
                     err = None\<rparr> nd
              (m2\<lparr>store := (store m2)(brk s0 \<mapsto> ColMapper Map.empty,
                                       Suc (brk s0) \<mapsto> IdAllocator (zero_idAllocator E))\<rparr>)
              = ((pl, b'), m3)"
    for m2 pl b' m3
  proof -
    from k l have "(if \<not> isSelectStmt E nd \<or> \<not> UseNewPlanner E
          then logicOptimize E cx nd m1 else (None, m1)) = (None, m2)"
      by simp
    from buildPlan_build [OF inf this b] k show ?thesis
      by simp
  qed
  have c3: "buildPlan E s0 cx nd sq isc =
              ((case err b' of Some e \<Rightarrow> Inl (Trace e) | None \<Rightarrow> Inr pl),
               s0\<lparr>memory := m3, brk := Suc (Suc (brk s0)),
                  calls := calls s0 @
                    [(Call_InferType nd, None),
                     (Call_build \<lparr>sb = sq, ctx = cx, is = isc, colMapper = brk s0, allocator = Suc (brk s0),
                     err = None\<rparr> nd, err b')]\<rparr>)"
    if k: "isSelectStmt E nd" "UseNewPlanner E"
      and b: "build E \<lparr>sb = sq, ctx = cx, is = isc, colMapper = brk s0, allocator = Suc (brk s0),
                     err = None\<rparr> nd
              (m1\<lparr>store := (store m1)(brk s0 \<mapsto> ColMapper Map.empty,
                                       Suc (brk s0) \<mapsto> IdAllocator (zero_idAllocator E))\<rparr>)
              = ((pl, b'), m3)"
    for pl b' m3
  proof -
    from k have "(if \<not> isSelectStmt E nd \<or> \<not> UseNewPlanner E
          then logicOptimize E cx nd m1 else (None, m1)) = (None, m1)"
      by simp
    from buildPlan_build [OF inf this b] k show ?thesis
      by simp
  qed
  show ?thesis
    apply (intro conjI)
    subgoal using old by blast
    subgoal using old by blast
    subgoal using c1 by blast
    subgoal using c2 by blast
    subgoal using c3 by blast
    done
qed

theorem Optimize_logicOptimize_iff_witness:
  "list_ex is_logicOptimize
     (map fst (newCalls sample_state (snd (Optimize (sample_env True True 0) sample_state () 3 () ()))))
   \<and> take 2 (map fst (newCalls sample_state (snd (Optimize (sample_env True True 0) sample_state () 3 () ()))))
       = [Call_InferType 3, Call_logicOptimize () 3]
   \<and> \<not> list_ex is_logicOptimize
       (map fst (newCalls sample_state (snd (Optimize (sample_env True True 0) sample_state () 0 () ()))))
   \<and> fst (Optimize (sample_env True True 2) sample_state () 3 () ()) = (None, Some (Trace 2))
   \<and> world (memory (snd (Optimize (sample_env True True 2) sample_state () 3 () ()))) = 2
   \<and> fst (buildPlan (sample_env True True 0) sample_state () 3 () ()) = Inr 13
   \<and> world (memory (snd (buildPlan (sample_env True True 0) sample_state () 3 () ()))) = 3
   \<and> map fst (calls (snd (buildPlan (sample_env True True 0) sample_state () 3 () ()))) =
       [Call_InferType 3, Call_logicOptimize () 3,
        Call_build \<lparr>sb = (), ctx = (), is = (), colMapper = 0, allocator = 1, err = None\<rparr> 3]
   \<and> fst (buildPlan (sample_env True True 0) sample_state () 0 () ()) = Inr 10
   \<and> world (memory (snd (buildPlan (sample_env True True 0) sample_state () 0 () ()))) = 2
   \<and> map fst (calls (snd (buildPlan (sample_env True True 0) sample_state () 0 () ()))) =
       [Call_InferType 0,
        Call_build \<lparr>sb = (), ctx = (), is = (), colMapper = 0, allocator = 1, err = None\<rparr> 0]"
proof -
  let ?s0 = "sample_state"
  let ?E = "sample_env True True 0"
  let ?F = "sample_env True True 2"
  let ?B = "\<lparr>sb = (), ctx = (), is = (), colMapper = brk ?s0, allocator = Suc (brk ?s0),
             err = None :: nat option\<rparr>"
  let ?m3 = "snd (InferType ?E 3 (memory ?s0))"
  let ?m0 = "snd (InferType ?E 0 (memory ?s0))"
  let ?mf = "snd (InferType ?F 3 (memory ?s0))"
  have inf3: "InferType ?E 3 (memory ?s0) = (None, ?m3)"
    and inf0: "InferType ?E 0 (memory ?s0) = (None, ?m0)"
    and inff: "InferType ?F 3 (memory ?s0) = (None, ?mf)"
    by (simp_all add: sample_defs)
  have k3: "\<not> isSelectStmt ?E 3 \<or> \<not> UseNewPlanner ?E"
    and kf: "\<not> isSelectStmt ?F 3 \<or> \<not> UseNewPlanner ?F"
    and k0: "isSelectStmt ?E 0" "UseNewPlanner ?E"
    by (simp_all add: sample_defs)
  \<comment> \<open>the calls of the two runs\<close>
  note t3 = Optimize_logicOptimize_iff [OF inf3 surjective_pairing, of "()" "()" "()"]
  note t0 = Optimize_logicOptimize_iff [OF inf0 surjective_pairing, of "()" "()" "()"]
  note tf = Optimize_logicOptimize_iff [OF inff surjective_pairing, of "()" "()" "()"]
  from t3 k3 have a: "list_ex is_logicOptimize
       (map fst (newCalls ?s0 (snd (Optimize ?E ?s0 () 3 () ()))))"
    and b: "take 2 (map fst (newCalls ?s0 (snd (Optimize ?E ?s0 () 3 () ()))))
       = [Call_InferType 3, Call_logicOptimize () 3]"
    by simp_all
  from t0 k0 have c: "\<not> list_ex is_logicOptimize
       (map fst (newCalls ?s0 (snd (Optimize ?E ?s0 () 0 () ()))))"
    by simp
  \<comment> \<open>\<open>logicOptimize\<close> fails: its error is the result, its memory the final one\<close>
  let ?mf2 = "snd (logicOptimize ?F () 3 ?mf)"
  have lf: "logicOptimize ?F () 3 ?mf = (Some 2, ?mf2)"
    by (simp add: sample_defs)
  have wf2: "world ?mf2 = 2"
    by (simp add: sample_defs)
  from tf [THEN conjunct2, THEN conjunct2, THEN conjunct1, rule_format, OF kf lf] wf2
  have d: "fst (Optimize ?F ?s0 () 3 () ()) = (None, Some (Trace 2))"
    and e: "world (memory (snd (Optimize ?F ?s0 () 3 () ()))) = 2"
    by (simp_all add: prod_eq_iff)
  \<comment> \<open>\<open>logicOptimize\<close> succeeds: \<open>build\<close> runs on the memory it left\<close>
  let ?m32 = "snd (logicOptimize ?E () 3 ?m3)"
  let ?M3 = "?m32\<lparr>store := (store ?m32)(brk ?s0 \<mapsto> ColMapper Map.empty,
                 Suc (brk ?s0) \<mapsto> IdAllocator (zero_idAllocator ?E))\<rparr>"
  have l3: "logicOptimize ?E () 3 ?m3 = (None, ?m32)"
    by (simp add: sample_defs)
  have b3: "build ?E ?B 3 ?M3 = ((13, ?B), snd (build ?E ?B 3 ?M3))"
    by (simp add: sample_defs)
  have w3: "world (snd (build ?E ?B 3 ?M3)) = 3"
    by (simp add: sample_defs)
  from t3 [THEN conjunct2, THEN conjunct2, THEN conjunct2, THEN conjunct1, rule_format,
         OF k3 l3 b3] w3
  have f: "fst (buildPlan ?E ?s0 () 3 () ()) = Inr 13"
    and g: "world (memory (snd (buildPlan ?E ?s0 () 3 () ()))) = 3"
    and h: "map fst (calls (snd (buildPlan ?E ?s0 () 3 () ()))) =
       [Call_InferType 3, Call_logicOptimize () 3,
        Call_build \<lparr>sb = (), ctx = (), is = (), colMapper = 0, allocator = 1, err = None\<rparr> 3]"
    by (simp_all add: sample_state_def)
  \<comment> \<open>a \<open>SelectStmt\<close> with the toggle on: \<open>build\<close> runs on the memory of \<open>InferType\<close>\<close>
  let ?M0 = "?m0\<lparr>store := (store ?m0)(brk ?s0 \<mapsto> ColMapper Map.empty,
                 Suc (brk ?s0) \<mapsto> IdAllocator (zero_idAllocator ?E))\<rparr>"
  have b0: "build ?E ?B 0 ?M0 = ((10, ?B), snd (build ?E ?B 0 ?M0))"
    by (simp add: sample_defs)
  have w0: "world (snd (build ?E ?B 0 ?M0)) = 2"
    by (simp add: sample_defs)
  from t0 [THEN conjunct2, THEN conjunct2, THEN conjunct2, THEN conjunct2, rule_format,
         OF k0 b0] w0
  have i: "fst (buildPlan ?E ?s0 () 0 () ()) = Inr 10"
    and j: "world (memory (snd (buildPlan ?E ?s0 () 0 () ()))) = 2"
    and k: "map fst (calls (snd (buildPlan ?E ?s0 () 0 () ()))) =
       [Call_InferType 0,
        Call_build \<lparr>sb = (), ctx = (), is = (), colMapper = 0, allocator = 1, err = None\<rparr> 0]"
    by (simp_all add: sample_state_def)
  from a b c d e f g h i j k show ?thesis
    by simp
qed

section \<open>Which calls a run makes\<close>

lemma newCalls_trans:
  assumes "\<exists>t. calls s = calls s0 @ t" and "\<exists>t. calls s' = calls s @ t"
  shows "newCalls s0 s' = newCalls s0 s @ newCalls s s'"
  using assms by (auto simp: newCalls_def)

lemma buildPlan_calls:
  assumes "buildPlan E s0 cx nd sq isc = (rb, s)"
  shows "\<exists>t. calls s = calls s0 @ t"
    and "list_all (\<lambda>c. \<not> is_newPipeline c \<and> \<not> is_Refine c) (map fst (newCalls s0 s))"
    and "rb = Inr pl \<Longrightarrow>
         list_ex is_logicOptimize (map fst (newCalls s0 s))
           \<longleftrightarrow> (\<not> isSelectStmt E nd \<or> \<not> UseNewPlanner E)"
  using assms
  by (auto simp: buildPlan_def newPlanBuilder_def alloc_def returned_def newCalls_def Let_def
        is_newPipeline_def split: run_splits)

lemma newPipeline_calls:
  assumes "newPipeline E pl s = (r, s')"
  shows "\<exists>t. calls s' = calls s @ t"
    and "list_all (\<lambda>c. is_newPipeline c \<and> \<not> is_Refine c \<and> \<not> is_logicOptimize c)
           (map fst (newCalls s s'))"
    and "list_ex is_PredicatePushDown (map fst (newCalls s s'))"
    and "newCalls s s' \<noteq> []"
  using assms
  by (auto simp: newPipeline_def returned_def newCalls_def Let_def is_newPipeline_def
        split: run_splits)

lemma Optimize_after_buildPlan:
  assumes "Optimize E s0 cx nd sq isc = (r, s')" and "buildPlan E s0 cx nd sq isc = (rb, s)"
  shows "case rb of
           Inl e \<Rightarrow> s' = s
         | Inr pl \<Rightarrow>
             if UseNewPlanner E \<and> isLogicalPlan E pl then newPipeline E pl s = (r, s')
             else (\<exists>e. calls s' = calls s @ [(Call_Refine pl, e)])"
  using assms
  by (auto simp: Optimize_def returned_def Let_def split: run_splits)

lemma Optimize_kinds:
  assumes run: "Optimize E s0 cx nd sq isc = (r, s')"
  shows "list_ex is_newPipeline (map fst (newCalls s0 s')) \<longleftrightarrow>
            UseNewPlanner E
            \<and> (case fst (buildPlan E s0 cx nd sq isc) of
                 Inr pl \<Rightarrow> isLogicalPlan E pl | Inl x \<Rightarrow> False)" (is ?A)
    and "list_ex is_PredicatePushDown (map fst (newCalls s0 s')) \<longleftrightarrow>
            list_ex is_newPipeline (map fst (newCalls s0 s'))" (is ?B)
    and "list_ex is_Refine (map fst (newCalls s0 s')) \<longleftrightarrow>
            (case fst (buildPlan E s0 cx nd sq isc) of
                 Inr pl \<Rightarrow> \<not> (UseNewPlanner E \<and> isLogicalPlan E pl) | Inl x \<Rightarrow> False)" (is ?C)
    and "list_ex is_newPipeline (map fst (newCalls s0 s')) \<Longrightarrow>
            is_newPipeline (last (map fst (newCalls s0 s')))" (is "?P \<Longrightarrow> ?D")
    and "fst (buildPlan E s0 cx nd sq isc) = Inr pl \<Longrightarrow>
          list_ex is_logicOptimize (map fst (newCalls s0 s'))
           \<longleftrightarrow> (\<not> isSelectStmt E nd \<or> \<not> UseNewPlanner E)" (is "?Q \<Longrightarrow> ?F")
proof -
  obtain rb s where bp: "buildPlan E s0 cx nd sq isc = (rb, s)"
    by (cases "buildPlan E s0 cx nd sq isc")
  note b = buildPlan_calls [OF bp]
  note after = Optimize_after_buildPlan [OF run bp]
  have "?A \<and> ?B \<and> ?C \<and> (?P \<longrightarrow> ?D) \<and> (?Q \<longrightarrow> ?F)"
  proof (cases rb)
    case (Inl e)
    with after have "s' = s" by simp
    with b(2) Inl bp show ?thesis
      by (auto simp: list_all_iff list_ex_iff is_newPipeline_def)
  next
    case (Inr pl')
    show ?thesis
    proof (cases "UseNewPlanner E \<and> isLogicalPlan E pl'")
      case True
      with after Inr have np: "newPipeline E pl' s = (r, s')" by simp
      note n = newPipeline_calls [OF np]
      have tr: "newCalls s0 s' = newCalls s0 s @ newCalls s s'"
        by (rule newCalls_trans [OF b(1) n(1)])
      from n(2) n(4) have l: "is_newPipeline (last (map fst (newCalls s s')))"
        by (simp add: list_all_iff last_map)
      from tr b(2) b(3) [OF Inr] n(2) n(3) n(4) l True Inr bp show ?thesis
        by (auto simp: list_all_iff list_ex_iff is_newPipeline_def last_map)
    next
      case False
      with after Inr obtain e where c: "calls s' = calls s @ [(Call_Refine pl', e)]"
        by auto
      then have "\<exists>t. calls s' = calls s @ t" by blast
      from newCalls_trans [OF b(1) this] c
      have tr: "newCalls s0 s' = newCalls s0 s @ [(Call_Refine pl', e)]"
        by (simp add: newCalls_def)
      from tr b(2) b(3) [OF Inr] False Inr bp show ?thesis
        by (auto simp: list_all_iff list_ex_iff is_newPipeline_def)
    qed
  qed
  then show ?A ?B ?C "?P \<Longrightarrow> ?D" "?Q \<Longrightarrow> ?F" by blast+
qed

text \<open>
  C5. No run of \<open>Optimize\<close> calls both \<open>Refine\<close> and \<open>convert2PhysicalPlan\<close>. A run
  that makes a call of the new-pipeline phase makes no call of \<open>Refine\<close>, and its last
  call is one of that phase: it returns from there. A run that calls \<open>Refine\<close> makes no
  call of the new-pipeline phase.
\<close>

theorem Optimize_Refine_excludes_new_pipeline:
  assumes run: "Optimize E s0 cx nd sq isc = (r, s')"
  shows "\<not> (list_ex is_Refine (map fst (newCalls s0 s'))
            \<and> list_ex is_convert2PhysicalPlan (map fst (newCalls s0 s')))
       \<and> (list_ex is_newPipeline (map fst (newCalls s0 s')) \<longrightarrow>
            \<not> list_ex is_Refine (map fst (newCalls s0 s'))
            \<and> is_newPipeline (last (map fst (newCalls s0 s'))))
       \<and> (list_ex is_Refine (map fst (newCalls s0 s')) \<longrightarrow>
            \<not> list_ex is_newPipeline (map fst (newCalls s0 s')))"
proof -
  note k = Optimize_kinds [OF run]
  have excl: "\<not> list_ex is_Refine (map fst (newCalls s0 s'))"
    if "list_ex is_newPipeline (map fst (newCalls s0 s'))"
    using that k(1) k(3) by (auto split: sum.splits)
  have conv: "list_ex is_newPipeline (map fst (newCalls s0 s'))"
    if "list_ex is_convert2PhysicalPlan (map fst (newCalls s0 s'))"
    using that by (auto simp: list_ex_iff is_newPipeline_def)
  from excl conv k(4) show ?thesis by blast
qed

theorem Optimize_Refine_excludes_new_pipeline_witness:
  "list_ex is_newPipeline
     (map fst (newCalls sample_state (snd (Optimize (sample_env True True 0) sample_state () 0 () ()))))
   \<and> \<not> list_ex is_Refine
     (map fst (newCalls sample_state (snd (Optimize (sample_env True True 0) sample_state () 0 () ()))))
   \<and> list_ex is_Refine
     (map fst (newCalls sample_state (snd (Optimize (sample_env True False 0) sample_state () 0 () ()))))
   \<and> \<not> list_ex is_newPipeline
     (map fst (newCalls sample_state (snd (Optimize (sample_env True False 0) sample_state () 0 () ()))))"
proof -
  let ?new = "Optimize (sample_env True True 0) sample_state () 0 () ()"
  let ?old = "Optimize (sample_env True False 0) sample_state () 0 () ()"
  have new: "list_ex is_newPipeline (map fst (newCalls sample_state (snd ?new)))"
    by (simp add: run_defs sample_defs is_newPipeline_def)
  have old: "list_ex is_Refine (map fst (newCalls sample_state (snd ?old)))"
    by (simp add: run_defs sample_defs)
  have runs: "?new = (fst ?new, snd ?new)" "?old = (fst ?old, snd ?old)"
    by simp_all
  from Optimize_Refine_excludes_new_pipeline [OF runs(1)]
       Optimize_Refine_excludes_new_pipeline [OF runs(2)] new old
  show ?thesis by blast
qed

text \<open>
  C8. A run of \<open>Optimize\<close> makes a call of the new-pipeline phase, and then its first one,
  \<open>PredicatePushDown\<close>, if and only if \<open>UseNewPlanner\<close> is true and the plan that the
  builder returned without error is a \<open>LogicalPlan\<close>: the kind of the statement does not
  enter. So with \<open>UseNewPlanner\<close> true, a statement that is not a \<open>SelectStmt\<close> and
  whose built plan is a \<open>LogicalPlan\<close> gets both \<open>logicOptimize\<close> and the new pipeline,
  and no \<open>Refine\<close>; and a \<open>SelectStmt\<close> whose built plan is not a \<open>LogicalPlan\<close> gets
  \<open>Refine\<close>, without \<open>logicOptimize\<close> and without the new pipeline. By what the
  called functions return: when the toggle is on and the built plan is a
  \<open>LogicalPlan\<close>, the result, the memory and the calls are those of
  \<open>PredicatePushDown\<close>, \<open>PruneColumnsAndResolveIndices\<close>, \<open>convert2PhysicalPlan\<close> and
  \<open>PushLimit\<close>, each run on what the one before left, up to the first error; otherwise
  they are those of \<open>Refine\<close> on the built plan, its error included. With the toggle
  on, the plan of a statement that is not a \<open>SelectStmt\<close> is built after
  \<open>logicOptimize\<close>, on the memory it left; the plan of a \<open>SelectStmt\<close> is built
  right after \<open>InferType\<close>.
\<close>

theorem Optimize_new_pipeline_iff_logical_plan:
  assumes run: "Optimize E s0 cx nd sq isc = (r, s')"
  shows "(list_ex is_newPipeline (map fst (newCalls s0 s')) \<longleftrightarrow>
            UseNewPlanner E
            \<and> (case fst (buildPlan E s0 cx nd sq isc) of
                 Inr pl \<Rightarrow> isLogicalPlan E pl | Inl x \<Rightarrow> False))
       \<and> (list_ex is_PredicatePushDown (map fst (newCalls s0 s')) \<longleftrightarrow>
            list_ex is_newPipeline (map fst (newCalls s0 s')))
       \<and> (\<forall>pl. UseNewPlanner E \<and> \<not> isSelectStmt E nd
                \<and> fst (buildPlan E s0 cx nd sq isc) = Inr pl \<and> isLogicalPlan E pl \<longrightarrow>
              list_ex is_logicOptimize (map fst (newCalls s0 s'))
              \<and> list_ex is_PredicatePushDown (map fst (newCalls s0 s'))
              \<and> \<not> list_ex is_Refine (map fst (newCalls s0 s')))
       \<and> (\<forall>pl. UseNewPlanner E \<and> isSelectStmt E nd
                \<and> fst (buildPlan E s0 cx nd sq isc) = Inr pl \<and> \<not> isLogicalPlan E pl \<longrightarrow>
              list_ex is_Refine (map fst (newCalls s0 s'))
              \<and> \<not> list_ex is_logicOptimize (map fst (newCalls s0 s'))
              \<and> \<not> list_ex is_newPipeline (map fst (newCalls s0 s')))
       \<and> (\<forall>pl s. buildPlan E s0 cx nd sq isc = (Inr pl, s) \<longrightarrow>
            UseNewPlanner E \<longrightarrow>
            isLogicalPlan E pl \<longrightarrow>
            (r, s') =
              (case PredicatePushDown E pl [] (memory s) of
                 ((lg, Some e), m1) \<Rightarrow>
                    ((None, Some (Trace e)),
                     s\<lparr>memory := m1,
                       calls := calls s @ [(Call_PredicatePushDown pl [], Some e)]\<rparr>)
               | ((lg, None), m1) \<Rightarrow>
                   (case PruneColumnsAndResolveIndices E lg (GetSchema E pl m1) m1 of
                      (Some e, m2) \<Rightarrow>
                        ((None, Some (Trace e)),
                         s\<lparr>memory := m2,
                           calls := calls s @
                             [(Call_PredicatePushDown pl [], None),
                              (Call_PruneColumnsAndResolveIndices lg (GetSchema E pl m1), Some e)]\<rparr>)
                    | (None, m2) \<Rightarrow>
                       (case convert2PhysicalPlan E lg None m2 of
                          ((res, Some e), m3) \<Rightarrow>
                            ((None, Some (Trace e)),
                             s\<lparr>memory := m3,
                               calls := calls s @
                                 [(Call_PredicatePushDown pl [], None),
                                  (Call_PruneColumnsAndResolveIndices lg (GetSchema E pl m1), None),
                                  (Call_convert2PhysicalPlan lg None, Some e)]\<rparr>)
                        | ((res, None), m3) \<Rightarrow>
                           (case PushLimit E (p res) None m3 of
                              (q, m4) \<Rightarrow>
                                ((Some q, None),
                                 s\<lparr>memory := m4,
                                   calls := calls s @
                                     [(Call_PredicatePushDown pl [], None),
                                      (Call_PruneColumnsAndResolveIndices lg (GetSchema E pl m1), None),
                                      (Call_convert2PhysicalPlan lg None, None),
                                      (Call_PushLimit (p res) None, None)],
                                   logged := logged s @ [''[PLAN] '' @ ToString E q m4]\<rparr>))))))
       \<and> (\<forall>pl s e m. buildPlan E s0 cx nd sq isc = (Inr pl, s) \<longrightarrow>
            \<not> (UseNewPlanner E \<and> isLogicalPlan E pl) \<longrightarrow>
            Refine E pl (memory s) = (e, m) \<longrightarrow>
            (r, s') =
              ((case e of None \<Rightarrow> (Some pl, None) | Some x \<Rightarrow> (None, Some (Trace x))),
               s\<lparr>memory := m, calls := calls s @ [(Call_Refine pl, e)]\<rparr>))
       \<and> (\<forall>m1 m2 pl b' m3. UseNewPlanner E \<longrightarrow>
            \<not> isSelectStmt E nd \<longrightarrow>
            InferType E nd (memory s0) = (None, m1) \<longrightarrow>
            logicOptimize E cx nd m1 = (None, m2) \<longrightarrow>
            build E \<lparr>sb = sq, ctx = cx, is = isc, colMapper = brk s0, allocator = Suc (brk s0),
                     err = None\<rparr> nd
              (m2\<lparr>store := (store m2)(brk s0 \<mapsto> ColMapper Map.empty,
                                       Suc (brk s0) \<mapsto> IdAllocator (zero_idAllocator E))\<rparr>)
              = ((pl, b'), m3) \<longrightarrow>
            err b' = None \<longrightarrow>
            buildPlan E s0 cx nd sq isc =
              (Inr pl,
               s0\<lparr>memory := m3, brk := Suc (Suc (brk s0)),
                  calls := calls s0 @
                    [(Call_InferType nd, None), (Call_logicOptimize cx nd, None),
                     (Call_build \<lparr>sb = sq, ctx = cx, is = isc, colMapper = brk s0, allocator = Suc (brk s0),
                     err = None\<rparr> nd, None)]\<rparr>))
       \<and> (\<forall>m1 pl b' m3. UseNewPlanner E \<longrightarrow>
            isSelectStmt E nd \<longrightarrow>
            InferType E nd (memory s0) = (None, m1) \<longrightarrow>
            build E \<lparr>sb = sq, ctx = cx, is = isc, colMapper = brk s0, allocator = Suc (brk s0),
                     err = None\<rparr> nd
              (m1\<lparr>store := (store m1)(brk s0 \<mapsto> ColMapper Map.empty,
                                       Suc (brk s0) \<mapsto> IdAllocator (zero_idAllocator E))\<rparr>)
              = ((pl, b'), m3) \<longrightarrow>
            err b' = None \<longrightarrow>
            buildPlan E s0 cx nd sq isc =
              (Inr pl,
               s0\<lparr>memory := m3, brk := Suc (Suc (brk s0)),
                  calls := calls s0 @
                    [(Call_InferType nd, None),
                     (Call_build \<lparr>sb = sq, ctx = cx, is = isc, colMapper = brk s0, allocator = Suc (brk s0),
                     err = None\<rparr> nd, None)]\<rparr>))"
proof -
  note k = Optimize_kinds [OF run]
  have both: "list_ex is_logicOptimize (map fst (newCalls s0 s'))
              \<and> list_ex is_PredicatePushDown (map fst (newCalls s0 s'))
              \<and> \<not> list_ex is_Refine (map fst (newCalls s0 s'))"
    if "UseNewPlanner E" "\<not> isSelectStmt E nd"
       "fst (buildPlan E s0 cx nd sq isc) = Inr pl" "isLogicalPlan E pl" for pl
    using that k(1) k(2) k(3) k(5) [OF that(3)] by simp
  have fall: "list_ex is_Refine (map fst (newCalls s0 s'))
              \<and> \<not> list_ex is_logicOptimize (map fst (newCalls s0 s'))
              \<and> \<not> list_ex is_newPipeline (map fst (newCalls s0 s'))"
    if "UseNewPlanner E" "isSelectStmt E nd"
       "fst (buildPlan E s0 cx nd sq isc) = Inr pl" "\<not> isLogicalPlan E pl" for pl
    using that k(1) k(3) k(5) [OF that(3)] by simp
  have cA: "(r, s') =
              (case PredicatePushDown E pl [] (memory s) of
                 ((lg, Some e), m1) \<Rightarrow>
                    ((None, Some (Trace e)),
                     s\<lparr>memory := m1,
                       calls := calls s @ [(Call_PredicatePushDown pl [], Some e)]\<rparr>)
               | ((lg, None), m1) \<Rightarrow>
                   (case PruneColumnsAndResolveIndices E lg (GetSchema E pl m1) m1 of
                      (Some e, m2) \<Rightarrow>
                        ((None, Some (Trace e)),
                         s\<lparr>memory := m2,
                           calls := calls s @
                             [(Call_PredicatePushDown pl [], None),
                              (Call_PruneColumnsAndResolveIndices lg (GetSchema E pl m1), Some e)]\<rparr>)
                    | (None, m2) \<Rightarrow>
                       (case convert2PhysicalPlan E lg None m2 of
                          ((res, Some e), m3) \<Rightarrow>
                            ((None, Some (Trace e)),
                             s\<lparr>memory := m3,
                               calls := calls s @
                                 [(Call_PredicatePushDown pl [], None),
                                  (Call_PruneColumnsAndResolveIndices lg (GetSchema E pl m1), None),
                                  (Call_convert2PhysicalPlan lg None, Some e)]\<rparr>)
                        | ((res, None), m3) \<Rightarrow>
                           (case PushLimit E (p res) None m3 of
                              (q, m4) \<Rightarrow>
                                ((Some q, None),
                                 s\<lparr>memory := m4,
                                   calls := calls s @
                                     [(Call_PredicatePushDown pl [], None),
                                      (Call_PruneColumnsAndResolveIndices lg (GetSchema E pl m1), None),
                                      (Call_convert2PhysicalPlan lg None, None),
                                      (Call_PushLimit (p res) None, None)],
                                   logged := logged s @ [''[PLAN] '' @ ToString E q m4]\<rparr>)))))"
    if "buildPlan E s0 cx nd sq isc = (Inr pl, s)"
       "UseNewPlanner E"
       "isLogicalPlan E pl"
    for pl s
    using Optimize_newPipeline_returns [OF that] run by simp

  have cB: "(r, s') =
              ((case e of None \<Rightarrow> (Some pl, None) | Some x \<Rightarrow> (None, Some (Trace x))),
               s\<lparr>memory := m, calls := calls s @ [(Call_Refine pl, e)]\<rparr>)"
    if "buildPlan E s0 cx nd sq isc = (Inr pl, s)"
       "\<not> (UseNewPlanner E \<and> isLogicalPlan E pl)"
       "Refine E pl (memory s) = (e, m)"
    for pl s e m
    using Optimize_Refine_returns [OF that] run by simp

  have cC1: "buildPlan E s0 cx nd sq isc =
              (Inr pl,
               s0\<lparr>memory := m3, brk := Suc (Suc (brk s0)),
                  calls := calls s0 @
                    [(Call_InferType nd, None), (Call_logicOptimize cx nd, None),
                     (Call_build \<lparr>sb = sq, ctx = cx, is = isc, colMapper = brk s0, allocator = Suc (brk s0),
                     err = None\<rparr> nd, None)]\<rparr>)"
    if "UseNewPlanner E"
       "\<not> isSelectStmt E nd"
       "InferType E nd (memory s0) = (None, m1)"
       "logicOptimize E cx nd m1 = (None, m2)"
       "build E \<lparr>sb = sq, ctx = cx, is = isc, colMapper = brk s0, allocator = Suc (brk s0),
                     err = None\<rparr> nd
              (m2\<lparr>store := (store m2)(brk s0 \<mapsto> ColMapper Map.empty,
                                       Suc (brk s0) \<mapsto> IdAllocator (zero_idAllocator E))\<rparr>)
              = ((pl, b'), m3)"
       "err b' = None"
    for m1 m2 pl b' m3
    using buildPlan_build [OF that(3), of cx m2 sq isc pl b' m3] that by simp

  have cC2: "buildPlan E s0 cx nd sq isc =
              (Inr pl,
               s0\<lparr>memory := m3, brk := Suc (Suc (brk s0)),
                  calls := calls s0 @
                    [(Call_InferType nd, None),
                     (Call_build \<lparr>sb = sq, ctx = cx, is = isc, colMapper = brk s0, allocator = Suc (brk s0),
                     err = None\<rparr> nd, None)]\<rparr>)"
    if "UseNewPlanner E"
       "isSelectStmt E nd"
       "InferType E nd (memory s0) = (None, m1)"
       "build E \<lparr>sb = sq, ctx = cx, is = isc, colMapper = brk s0, allocator = Suc (brk s0),
                     err = None\<rparr> nd
              (m1\<lparr>store := (store m1)(brk s0 \<mapsto> ColMapper Map.empty,
                                       Suc (brk s0) \<mapsto> IdAllocator (zero_idAllocator E))\<rparr>)
              = ((pl, b'), m3)"
       "err b' = None"
    for m1 pl b' m3
    using buildPlan_build [OF that(3), of cx m1 sq isc pl b' m3] that by simp

  show ?thesis
    apply (intro conjI)
    subgoal using k(1) by blast
    subgoal using k(2) by blast
    subgoal using both by blast
    subgoal using fall by blast
    subgoal using cA by blast
    subgoal using cB by blast
    subgoal using cC1 by blast
    subgoal using cC2 by blast
    done
qed

theorem Optimize_new_pipeline_iff_logical_plan_witness:
  "fst (Optimize (sample_env True True 0) sample_state () 3 () ()) = (Some 1114, None)
   \<and> map fst (newCalls sample_state (snd (Optimize (sample_env True True 0) sample_state () 3 () ()))) =
       [Call_InferType 3, Call_logicOptimize () 3, Call_build \<lparr>sb = (), ctx = (), is = (), colMapper = 0, allocator = 1, err = None\<rparr> 3,
        Call_PredicatePushDown 13 [], Call_PruneColumnsAndResolveIndices 14 17,
        Call_convert2PhysicalPlan 14 None, Call_PushLimit 114 None]
   \<and> fst (Optimize (sample_env True False 7) sample_state () 0 () ()) = (None, Some (Trace 7))
   \<and> map fst (newCalls sample_state (snd (Optimize (sample_env True False 7) sample_state () 0 () ()))) =
       [Call_InferType 0, Call_build \<lparr>sb = (), ctx = (), is = (), colMapper = 0, allocator = 1, err = None\<rparr> 0, Call_Refine 10]
   \<and> list_ex is_logicOptimize
     (map fst (newCalls sample_state (snd (Optimize (sample_env True True 0) sample_state () 3 () ()))))
   \<and> list_ex is_PredicatePushDown
     (map fst (newCalls sample_state (snd (Optimize (sample_env True True 0) sample_state () 3 () ()))))
   \<and> \<not> list_ex is_Refine
     (map fst (newCalls sample_state (snd (Optimize (sample_env True True 0) sample_state () 3 () ()))))
   \<and> list_ex is_Refine
     (map fst (newCalls sample_state (snd (Optimize (sample_env True False 7) sample_state () 0 () ()))))
   \<and> \<not> list_ex is_logicOptimize
     (map fst (newCalls sample_state (snd (Optimize (sample_env True False 7) sample_state () 0 () ()))))
   \<and> \<not> list_ex is_newPipeline
     (map fst (newCalls sample_state (snd (Optimize (sample_env True False 7) sample_state () 0 () ()))))"
proof -
  let ?s0 = "sample_state"
  let ?E = "sample_env True True 0"
  let ?F = "sample_env True False 7"
  let ?both = "Optimize ?E ?s0 () 3 () ()"
  let ?fall = "Optimize ?F ?s0 () 0 () ()"
  let ?B = "\<lparr>sb = (), ctx = (), is = (), colMapper = brk ?s0, allocator = Suc (brk ?s0),
             err = None :: nat option\<rparr>"
  note tb = Optimize_new_pipeline_iff_logical_plan [of ?E ?s0 "()" 3 "()" "()" "fst ?both" "snd ?both"]
  note tf = Optimize_new_pipeline_iff_logical_plan [of ?F ?s0 "()" 0 "()" "()" "fst ?fall" "snd ?fall"]
  have runs: "?both = (fst ?both, snd ?both)" "?fall = (fst ?fall, snd ?fall)"
    by simp_all
  note tb = tb [OF runs(1)] and tf = tf [OF runs(2)]
  \<comment> \<open>no \<open>SelectStmt\<close>, the toggle on: \<open>logicOptimize\<close>, then \<open>build\<close> on its memory\<close>
  let ?m1 = "snd (InferType ?E 3 (memory ?s0))"
  let ?m2 = "snd (logicOptimize ?E () 3 ?m1)"
  let ?M = "?m2\<lparr>store := (store ?m2)(brk ?s0 \<mapsto> ColMapper Map.empty,
                 Suc (brk ?s0) \<mapsto> IdAllocator (zero_idAllocator ?E))\<rparr>"
  let ?m3 = "snd (build ?E ?B 3 ?M)"
  have e1: "UseNewPlanner ?E" "\<not> isSelectStmt ?E 3"
    "InferType ?E 3 (memory ?s0) = (None, ?m1)" "logicOptimize ?E () 3 ?m1 = (None, ?m2)"
    "build ?E ?B 3 ?M = ((13, ?B), ?m3)" "err ?B = None"
    by (simp_all add: sample_defs)
  note built = tb [THEN conjunct2, THEN conjunct2, THEN conjunct2, THEN conjunct2,
      THEN conjunct2, THEN conjunct2, THEN conjunct1, rule_format, OF e1]
  have l: "isLogicalPlan ?E 13"
    by (simp add: sample_defs)
  from tb [THEN conjunct2, THEN conjunct2, THEN conjunct2, THEN conjunct2, THEN conjunct1,
      rule_format, OF built e1(1) l]
  have a: "fst ?both = (Some 1114, None)"
    and b: "map fst (newCalls ?s0 (snd ?both)) =
       [Call_InferType 3, Call_logicOptimize () 3, Call_build \<lparr>sb = (), ctx = (), is = (), colMapper = 0, allocator = 1, err = None\<rparr> 3,
        Call_PredicatePushDown 13 [], Call_PruneColumnsAndResolveIndices 14 17,
        Call_convert2PhysicalPlan 14 None, Call_PushLimit 114 None]"
    by (simp_all add: prod_eq_iff newCalls_def sample_defs)
  \<comment> \<open>a \<open>SelectStmt\<close> whose plan is no \<open>LogicalPlan\<close>: no \<open>logicOptimize\<close>, then \<open>Refine\<close>\<close>
  let ?n1 = "snd (InferType ?F 0 (memory ?s0))"
  let ?N = "?n1\<lparr>store := (store ?n1)(brk ?s0 \<mapsto> ColMapper Map.empty,
                 Suc (brk ?s0) \<mapsto> IdAllocator (zero_idAllocator ?F))\<rparr>"
  let ?n3 = "snd (build ?F ?B 0 ?N)"
  have f1: "UseNewPlanner ?F" "isSelectStmt ?F 0"
    "InferType ?F 0 (memory ?s0) = (None, ?n1)"
    "build ?F ?B 0 ?N = ((10, ?B), ?n3)" "err ?B = None"
    by (simp_all add: sample_defs)
  note builtf = tf [THEN conjunct2, THEN conjunct2, THEN conjunct2, THEN conjunct2,
      THEN conjunct2, THEN conjunct2, THEN conjunct2, rule_format, OF f1]
  have nl: "\<not> (UseNewPlanner ?F \<and> isLogicalPlan ?F 10)"
    by (simp add: sample_defs)
  let ?sf = "?s0\<lparr>memory := ?n3, brk := Suc (Suc (brk ?s0)),
                  calls := calls ?s0 @ [(Call_InferType 0, None), (Call_build ?B 0, None)]\<rparr>"
  have rf: "Refine ?F 10 (memory ?sf) = (Some 7, snd (Refine ?F 10 (memory ?sf)))"
    by (simp add: sample_defs)
  from tf [THEN conjunct2, THEN conjunct2, THEN conjunct2, THEN conjunct2, THEN conjunct2,
      THEN conjunct1, rule_format, OF builtf nl rf]
  have c: "fst ?fall = (None, Some (Trace 7))"
    and d: "map fst (newCalls ?s0 (snd ?fall)) = [Call_InferType 0, Call_build \<lparr>sb = (), ctx = (), is = (), colMapper = 0, allocator = 1, err = None\<rparr> 0, Call_Refine 10]"
    by (simp_all add: prod_eq_iff newCalls_def sample_defs)
  from b have e: "list_ex is_logicOptimize (map fst (newCalls ?s0 (snd ?both)))"
      "list_ex is_PredicatePushDown (map fst (newCalls ?s0 (snd ?both)))"
      "\<not> list_ex is_Refine (map fst (newCalls ?s0 (snd ?both)))"
    by simp_all
  from d have f: "list_ex is_Refine (map fst (newCalls ?s0 (snd ?fall)))"
      "\<not> list_ex is_logicOptimize (map fst (newCalls ?s0 (snd ?fall)))"
      "\<not> list_ex is_newPipeline (map fst (newCalls ?s0 (snd ?fall)))"
    by (simp_all add: is_newPipeline_def)
  from a b c d e f show ?thesis
    by simp
qed

section \<open>The builder of a run\<close>

lemma buildersOf_append: "buildersOf (xs @ ys) = buildersOf xs @ buildersOf ys"
  by (simp add: buildersOf_def map_filter_def)

lemma buildersOf_simps:
  "buildersOf [] = []"
  "buildersOf ((c, e) # tr) = (case builderOf c of Some b \<Rightarrow> b # buildersOf tr | None \<Rightarrow> buildersOf tr)"
  by (simp_all add: buildersOf_def map_filter_def split: option.split)

lemma buildPlan_builders:
  assumes "buildPlan E s0 cx nd sq isc = (rb, s)"
  shows "buildersOf (newCalls s0 s) = [] \<and> brk s = brk s0 \<and> (\<exists>x. rb = Inl x)
       \<or> buildersOf (newCalls s0 s) =
            [\<lparr>sb = sq, ctx = cx, is = isc, colMapper = brk s0, allocator = Suc (brk s0), err = None\<rparr>]
          \<and> brk s = Suc (Suc (brk s0))"
  using assms
  by (auto simp: buildPlan_def newPlanBuilder_def alloc_def returned_def newCalls_def Let_def
        buildersOf_simps builderOf_def split: run_splits)

lemma buildPlan_prefix:
  assumes "buildPlan E s0 cx nd sq isc = (rb, s)"
  shows "\<exists>t. calls s = calls s0 @ t"
  using assms
  by (auto simp: buildPlan_def newPlanBuilder_def alloc_def returned_def Let_def
        split: run_splits)

lemma newPipeline_builders:
  assumes "newPipeline E pl s = (r, s')"
  shows "\<exists>t. calls s' = calls s @ t" and "buildersOf (newCalls s s') = []" and "brk s' = brk s"
  using assms
  by (auto simp: newPipeline_def returned_def newCalls_def Let_def buildersOf_simps builderOf_def
        split: run_splits)

lemma Refine_builders:
  assumes "Optimize E s0 cx nd sq isc = (r, s')" and "buildPlan E s0 cx nd sq isc = (Inr pl, s)"
    and "\<not> (UseNewPlanner E \<and> isLogicalPlan E pl)"
  shows "\<exists>t. calls s' = calls s @ t" and "buildersOf (newCalls s s') = []" and "brk s' = brk s"
  using assms
  by (auto simp: Optimize_def returned_def newCalls_def Let_def buildersOf_simps builderOf_def
        split: run_splits)

lemma Optimize_builders:
  assumes run: "Optimize E s0 cx nd sq isc = (r, s')"
  shows "buildersOf (newCalls s0 s') = [] \<and> brk s' = brk s0
           \<and> (\<exists>x. fst (buildPlan E s0 cx nd sq isc) = Inl x)
       \<or> buildersOf (newCalls s0 s') =
            [\<lparr>sb = sq, ctx = cx, is = isc, colMapper = brk s0, allocator = Suc (brk s0), err = None\<rparr>]
          \<and> brk s' = Suc (Suc (brk s0))"
proof -
  obtain rb s where bp: "buildPlan E s0 cx nd sq isc = (rb, s)"
    by (cases "buildPlan E s0 cx nd sq isc")
  note b = buildPlan_builders [OF bp]
  note pre = buildPlan_prefix [OF bp]
  note after = Optimize_after_buildPlan [OF run bp]
  show ?thesis
  proof (cases rb)
    case (Inl e)
    with after have "s' = s" by simp
    with b bp show ?thesis by simp
  next
    case (Inr pl)
    have rest: "(\<exists>t. calls s' = calls s @ t) \<and> buildersOf (newCalls s s') = [] \<and> brk s' = brk s"
    proof (cases "UseNewPlanner E \<and> isLogicalPlan E pl")
      case True
      with after Inr have "newPipeline E pl s = (r, s')" by simp
      from newPipeline_builders [OF this] show ?thesis by simp
    next
      case False
      from Refine_builders [OF run bp [unfolded Inr] False] show ?thesis by simp
    qed
    then have "newCalls s0 s' = newCalls s0 s @ newCalls s s'"
      using newCalls_trans [OF pre] by blast
    with rest b Inr show ?thesis
      by (simp add: buildersOf_append)
  qed
qed

lemma adds_no_object_from:
  assumes "adds_no_object f" and "f m = (r, m')" and "\<forall>a\<ge>k. store m a = None"
  shows "\<forall>a\<ge>k. store m' a = None"
proof (intro allI impI)
  fix a assume "k \<le> a"
  with assms(3) have "store m a = None" by simp
  with assms(1) have "store (snd (f m)) a = None"
    by (simp add: adds_no_object_def)
  with assms(2) show "store m' a = None" by simp
qed

lemma buildPlan_keeps_store_below_brk:
  assumes bp: "buildPlan E s0 cx nd sq isc = (rb, s)"
    and wf: "store_below_brk s0" and env: "env_adds_no_object E"
  shows "store_below_brk s" and "brk s0 \<le> brk s"
proof -
  let ?B = "\<lparr>sb = sq, ctx = cx, is = isc, colMapper = brk s0, allocator = Suc (brk s0),
             err = None\<rparr>"
  let ?M = "\<lambda>m. m\<lparr>store := (store m)(brk s0 \<mapsto> ColMapper Map.empty,
                         Suc (brk s0) \<mapsto> IdAllocator (zero_idAllocator E))\<rparr>"
  from env have IT: "adds_no_object (InferType E nd)"
    and LO: "adds_no_object (logicOptimize E cx nd)"
    and BU: "adds_no_object (build E ?B nd)"
    by (simp_all add: env_adds_no_object_def)
  from wf have k0: "\<forall>a\<ge>brk s0. store (memory s0) a = None"
    by (simp add: store_below_brk_def)
  obtain e1 m1 where it: "InferType E nd (memory s0) = (e1, m1)"
    by (cases "InferType E nd (memory s0)")
  note k1 = adds_no_object_from [OF IT it k0]
  obtain e2 m2 where lo: "logicOptimize E cx nd m1 = (e2, m2)"
    by (cases "logicOptimize E cx nd m1")
  note k2 = adds_no_object_from [OF LO lo k1]
  obtain r2 m3 where b2: "build E ?B nd (?M m2) = (r2, m3)"
    by (cases "build E ?B nd (?M m2)")
  obtain r1 n3 where b1: "build E ?B nd (?M m1) = (r1, n3)"
    by (cases "build E ?B nd (?M m1)")
  from k2 have "\<forall>a\<ge>Suc (Suc (brk s0)). store (?M m2) a = None"
    by simp
  note k3 = adds_no_object_from [OF BU b2 this]
  from k1 have "\<forall>a\<ge>Suc (Suc (brk s0)). store (?M m1) a = None"
    by simp
  note k4 = adds_no_object_from [OF BU b1 this]
  from bp it lo b1 b2 k1 k2 k3 k4 show "store_below_brk s"
    by (auto simp: buildPlan_def newPlanBuilder_def alloc_def returned_def store_below_brk_def
          Let_def split: option.splits if_splits prod.splits)
  from bp it lo b1 b2 show "brk s0 \<le> brk s"
    by (auto simp: buildPlan_def newPlanBuilder_def alloc_def returned_def Let_def
          split: option.splits if_splits prod.splits)
qed

lemma newPipeline_keeps_store_below_brk:
  assumes np: "newPipeline E pl s = (r, s')"
    and wf: "store_below_brk s" and env: "env_adds_no_object E"
  shows "store_below_brk s'" and "brk s' = brk s"
proof -
  from wf have k0: "\<forall>a\<ge>brk s. store (memory s) a = None"
    by (simp add: store_below_brk_def)
  obtain lg e1 m1 where d: "PredicatePushDown E pl [] (memory s) = ((lg, e1), m1)"
    by (metis prod.exhaust)
  from env have "adds_no_object (PredicatePushDown E pl [])"
    by (simp add: env_adds_no_object_def)
  note k1 = adds_no_object_from [OF this d k0]
  obtain e2 m2 where u: "PruneColumnsAndResolveIndices E lg (GetSchema E pl m1) m1 = (e2, m2)"
    by (metis prod.exhaust)
  from env have "adds_no_object (PruneColumnsAndResolveIndices E lg (GetSchema E pl m1))"
    by (simp add: env_adds_no_object_def)
  note k2 = adds_no_object_from [OF this u k1]
  obtain res e3 m3 where v: "convert2PhysicalPlan E lg None m2 = ((res, e3), m3)"
    by (metis prod.exhaust)
  from env have "adds_no_object (convert2PhysicalPlan E lg None)"
    by (simp add: env_adds_no_object_def)
  note k3 = adds_no_object_from [OF this v k2]
  obtain q m4 where l: "PushLimit E (p res) None m3 = (q, m4)"
    by (metis prod.exhaust)
  from env have "adds_no_object (PushLimit E (p res) None)"
    by (simp add: env_adds_no_object_def)
  note k4 = adds_no_object_from [OF this l k3]
  from np d u v l k1 k2 k3 k4 show "store_below_brk s'"
    by (auto simp: newPipeline_def returned_def store_below_brk_def Let_def split: option.splits)
  from np d u v l show "brk s' = brk s"
    by (auto simp: newPipeline_def returned_def Let_def split: option.splits)
qed

lemma Optimize_keeps_store_below_brk:
  assumes run: "Optimize E s0 cx nd sq isc = (r, s')"
    and wf: "store_below_brk s0" and env: "env_adds_no_object E"
  shows "store_below_brk s' \<and> brk s0 \<le> brk s'"
proof -
  obtain rb s where bp: "buildPlan E s0 cx nd sq isc = (rb, s)"
    by (cases "buildPlan E s0 cx nd sq isc")
  note b = buildPlan_keeps_store_below_brk [OF bp wf env]
  show ?thesis
  proof (cases rb)
    case (Inl x)
    with run bp have "s' = s" by (simp add: Optimize_def)
    with b show ?thesis by simp
  next
    case (Inr pl)
    show ?thesis
    proof (cases "UseNewPlanner E \<and> isLogicalPlan E pl")
      case True
      with run bp Inr have "newPipeline E pl s = (r, s')" by (simp add: Optimize_def)
      from newPipeline_keeps_store_below_brk [OF this b(1) env] b(2) show ?thesis by simp
    next
      case False
      obtain e m where f: "Refine E pl (memory s) = (e, m)"
        by (cases "Refine E pl (memory s)")
      from env have "adds_no_object (Refine E pl)"
        by (simp add: env_adds_no_object_def)
      from adds_no_object_from [OF this f] b(1)
      have "\<forall>a\<ge>brk s. store m a = None"
        by (simp add: store_below_brk_def)
      with Optimize_Refine_returns [OF bp [unfolded Inr] False f] run b(2) show ?thesis
        by (auto simp: store_below_brk_def)
    qed
  qed
qed

lemma unused_when_allocated:
  assumes wf: "store_below_brk s0" and env: "env_adds_no_object E"
    and it: "InferType E nd (memory s0) = (None, m1)"
    and lo: "(if \<not> isSelectStmt E nd \<or> \<not> UseNewPlanner E
              then logicOptimize E cx nd m1 else (None, m1)) = (None, m2)"
  shows "store m2 (brk s0) = None \<and> store m2 (Suc (brk s0)) = None"
proof -
  from env have IT: "adds_no_object (InferType E nd)"
    and LO: "adds_no_object (logicOptimize E cx nd)"
    by (simp_all add: env_adds_no_object_def)
  from wf have k0: "\<forall>a\<ge>brk s0. store (memory s0) a = None"
    by (simp add: store_below_brk_def)
  note k1 = adds_no_object_from [OF IT it k0]
  have "\<forall>a\<ge>brk s0. store m2 a = None"
  proof (cases "\<not> isSelectStmt E nd \<or> \<not> UseNewPlanner E")
    case True
    with lo have "logicOptimize E cx nd m1 = (None, m2)" by simp
    from adds_no_object_from [OF LO this k1] show ?thesis .
  next
    case False
    with lo have "m2 = m1" by simp
    with k1 show ?thesis by simp
  qed
  then show ?thesis by simp
qed

text \<open>
  C7. When a run of \<open>Optimize\<close> reaches line 38, \<open>build\<close> is run on a builder made for
  this run: its \<open>colMapper\<close> and its \<open>allocator\<close> are the two addresses that were the
  next unused ones when the run began, \<open>brk s0\<close> and \<open>brk s0 + 1\<close>, and in the memory
  that \<open>build\<close> is given there is an empty map at the first and a zero-valued
  \<open>idAllocator\<close> at the second; the run goes on from what \<open>build\<close> returns on them.
  A run constructs at most one builder; one that constructs none has built no plan
  (lines 29--47 returned an error). When every object of the store lies below \<open>brk\<close> as
  the run begins and the called functions put no object into the store, the two
  addresses hold nothing at the moment of the allocation, and every object lies below
  \<open>brk\<close> again when the run ends, the two new ones included. Two runs, the second
  starting in any state where the allocations of the first are in use, share neither:
  the \<open>colMapper\<close> and the \<open>allocator\<close> of the one are different addresses from those
  of the other.
\<close>

theorem Optimize_fresh_builder:
  assumes run1: "Optimize E s0 cx nd sq isc = (r, s')"
    and run2: "Optimize E' t0 cx' nd' sq' isc' = (r', t')"
    and later: "brk s' \<le> brk t0"
  shows "(\<forall>m1 m2 pl b' m3. InferType E nd (memory s0) = (None, m1) \<longrightarrow>
            (if \<not> isSelectStmt E nd \<or> \<not> UseNewPlanner E
             then logicOptimize E cx nd m1 else (None, m1)) = (None, m2) \<longrightarrow>
            build E \<lparr>sb = sq, ctx = cx, is = isc, colMapper = brk s0, allocator = Suc (brk s0),
                     err = None\<rparr> nd
              (m2\<lparr>store := (store m2)(brk s0 \<mapsto> ColMapper Map.empty,
                                       Suc (brk s0) \<mapsto> IdAllocator (zero_idAllocator E))\<rparr>)
              = ((pl, b'), m3) \<longrightarrow>
            buildPlan E s0 cx nd sq isc =
              ((case err b' of Some e \<Rightarrow> Inl (Trace e) | None \<Rightarrow> Inr pl),
               s0\<lparr>memory := m3, brk := Suc (Suc (brk s0)),
                  calls := calls s0 @ (Call_InferType nd, None)
                    # (if \<not> isSelectStmt E nd \<or> \<not> UseNewPlanner E
                       then [(Call_logicOptimize cx nd, None)] else [])
                    @ [(Call_build \<lparr>sb = sq, ctx = cx, is = isc, colMapper = brk s0, allocator = Suc (brk s0),
                     err = None\<rparr> nd, err b')]\<rparr>))
       \<and> (buildersOf (newCalls s0 s') = [] \<and> brk s' = brk s0
            \<and> (\<exists>x. fst (buildPlan E s0 cx nd sq isc) = Inl x)
          \<or> buildersOf (newCalls s0 s') =
               [\<lparr>sb = sq, ctx = cx, is = isc, colMapper = brk s0, allocator = Suc (brk s0),
                     err = None\<rparr>]
             \<and> brk s' = Suc (Suc (brk s0)))
       \<and> (store_below_brk s0 \<longrightarrow> env_adds_no_object E \<longrightarrow>
            store_below_brk s' \<and> brk s0 \<le> brk s'
            \<and> (\<forall>m1 m2. InferType E nd (memory s0) = (None, m1) \<longrightarrow>
                  (if \<not> isSelectStmt E nd \<or> \<not> UseNewPlanner E
             then logicOptimize E cx nd m1 else (None, m1)) = (None, m2) \<longrightarrow>
                  store m2 (brk s0) = None \<and> store m2 (Suc (brk s0)) = None))
       \<and> (\<forall>b1 \<in> set (buildersOf (newCalls s0 s')). \<forall>b2 \<in> set (buildersOf (newCalls t0 t')).
             colMapper b1 \<noteq> colMapper b2 \<and> colMapper b1 \<noteq> allocator b2
             \<and> allocator b1 \<noteq> colMapper b2 \<and> allocator b1 \<noteq> allocator b2)"
proof -
  note one = Optimize_builders [OF run1]
  note two = Optimize_builders [OF run2]
  have built: "buildPlan E s0 cx nd sq isc =
              ((case err b' of Some e \<Rightarrow> Inl (Trace e) | None \<Rightarrow> Inr pl),
               s0\<lparr>memory := m3, brk := Suc (Suc (brk s0)),
                  calls := calls s0 @ (Call_InferType nd, None)
                    # (if \<not> isSelectStmt E nd \<or> \<not> UseNewPlanner E
                       then [(Call_logicOptimize cx nd, None)] else [])
                    @ [(Call_build \<lparr>sb = sq, ctx = cx, is = isc, colMapper = brk s0, allocator = Suc (brk s0),
                     err = None\<rparr> nd, err b')]\<rparr>)"
    if "InferType E nd (memory s0) = (None, m1)"
       "(if \<not> isSelectStmt E nd \<or> \<not> UseNewPlanner E
             then logicOptimize E cx nd m1 else (None, m1)) = (None, m2)"
       "build E \<lparr>sb = sq, ctx = cx, is = isc, colMapper = brk s0, allocator = Suc (brk s0),
                     err = None\<rparr> nd
              (m2\<lparr>store := (store m2)(brk s0 \<mapsto> ColMapper Map.empty,
                                       Suc (brk s0) \<mapsto> IdAllocator (zero_idAllocator E))\<rparr>)
              = ((pl, b'), m3)"
    for m1 m2 pl b' m3
    by (rule buildPlan_build [OF that])
  have unused: "store_below_brk s' \<and> brk s0 \<le> brk s'
            \<and> (\<forall>m1 m2. InferType E nd (memory s0) = (None, m1) \<longrightarrow>
                  (if \<not> isSelectStmt E nd \<or> \<not> UseNewPlanner E
             then logicOptimize E cx nd m1 else (None, m1)) = (None, m2) \<longrightarrow>
                  store m2 (brk s0) = None \<and> store m2 (Suc (brk s0)) = None)"
    if wf: "store_below_brk s0" and env: "env_adds_no_object E"
    using Optimize_keeps_store_below_brk [OF run1 wf env] unused_when_allocated [OF wf env]
    by blast
  have apart: "colMapper b1 \<noteq> colMapper b2 \<and> colMapper b1 \<noteq> allocator b2
             \<and> allocator b1 \<noteq> colMapper b2 \<and> allocator b1 \<noteq> allocator b2"
    if "b1 \<in> set (buildersOf (newCalls s0 s'))" "b2 \<in> set (buildersOf (newCalls t0 t'))" for b1 b2
  proof -
    from one that(1) have b1: "colMapper b1 = brk s0" "allocator b1 = Suc (brk s0)"
      "brk s' = Suc (Suc (brk s0))" by auto
    from two that(2) have b2: "colMapper b2 = brk t0" "allocator b2 = Suc (brk t0)" by auto
    from b1 b2 later show ?thesis by simp
  qed
  show ?thesis
    apply (intro conjI)
    subgoal using built by blast
    subgoal using one by blast
    subgoal using unused by blast
    subgoal using apart by blast
    done
qed

theorem Optimize_fresh_builder_witness:
  "store_below_brk sample_state \<and> env_adds_no_object (sample_env True True 0)
   \<and> store (snd (InferType (sample_env True True 0) 0 (memory sample_state))) 0 = None
   \<and> store (snd (InferType (sample_env True True 0) 0 (memory sample_state))) 1 = None
   \<and> store (memory (snd (buildPlan (sample_env True True 0) sample_state () 0 () ()))) 0
       = Some (ColMapper [0 \<mapsto> 0])
   \<and> store (memory (snd (buildPlan (sample_env True True 0) sample_state () 0 () ()))) 1
       = Some (IdAllocator 1)
   \<and> buildersOf (newCalls sample_state (snd (Optimize (sample_env True True 0) sample_state () 0 () ()))) =
     [\<lparr>sb = (), ctx = (), is = (), colMapper = 0, allocator = 1, err = None\<rparr>]
   \<and> store_below_brk (snd (Optimize (sample_env True True 0) sample_state () 0 () ()))
   \<and> buildersOf (newCalls (snd (Optimize (sample_env True True 0) sample_state () 0 () ()))
        (snd (Optimize (sample_env True True 0)
               (snd (Optimize (sample_env True True 0) sample_state () 0 () ())) () 3 () ()))) =
     [\<lparr>sb = (), ctx = (), is = (), colMapper = 2, allocator = 3, err = None\<rparr>]
   \<and> store (snd (logicOptimize (sample_env True True 0) () 3
               (snd (InferType (sample_env True True 0) 3
                  (memory (snd (Optimize (sample_env True True 0) sample_state () 0 () ()))))))) 2
       = None
   \<and> store (snd (logicOptimize (sample_env True True 0) () 3
               (snd (InferType (sample_env True True 0) 3
                  (memory (snd (Optimize (sample_env True True 0) sample_state () 0 () ()))))))) 3
       = None
   \<and> store (snd (logicOptimize (sample_env True True 0) () 3
               (snd (InferType (sample_env True True 0) 3
                  (memory (snd (Optimize (sample_env True True 0) sample_state () 0 () ()))))))) 0
       = Some (ColMapper [0 \<mapsto> 0])"
proof -
  let ?s0 = "sample_state"
  let ?E = "sample_env True True 0"
  let ?run1 = "Optimize ?E ?s0 () 0 () ()"
  let ?s1 = "snd ?run1"
  let ?run2 = "Optimize ?E ?s1 () 3 () ()"
  let ?run3 = "Optimize ?E (snd ?run2) () 0 () ()"
  have run1: "?run1 = (fst ?run1, snd ?run1)" and run2: "?run2 = (fst ?run2, snd ?run2)"
    and run3: "?run3 = (fst ?run3, snd ?run3)"
    by simp_all
  note first = Optimize_fresh_builder [OF run1 run2 order_refl]
  note second = Optimize_fresh_builder [OF run2 run3 order_refl]
  have wf0: "store_below_brk ?s0"
    by (simp add: store_below_brk_def sample_defs)
  have env: "env_adds_no_object ?E"
    by (simp add: env_adds_no_object_def adds_no_object_def sample_defs)
  have brk0: "brk ?s0 = 0"
    by (simp add: sample_defs)
  \<comment> \<open>the first run: the two addresses are unused, then hold the fresh objects\<close>
  let ?m1 = "snd (InferType ?E 0 (memory ?s0))"
  let ?B = "\<lparr>sb = (), ctx = (), is = (), colMapper = brk ?s0, allocator = Suc (brk ?s0),
             err = None :: nat option\<rparr>"
  let ?M = "?m1\<lparr>store := (store ?m1)(brk ?s0 \<mapsto> ColMapper Map.empty,
                 Suc (brk ?s0) \<mapsto> IdAllocator (zero_idAllocator ?E))\<rparr>"
  have it: "InferType ?E 0 (memory ?s0) = (None, ?m1)"
    by (simp add: sample_defs)
  have lo: "(if \<not> isSelectStmt ?E 0 \<or> \<not> UseNewPlanner ?E
             then logicOptimize ?E () 0 ?m1 else (None, ?m1)) = (None, ?m1)"
    by (simp add: sample_defs)
  have bu: "build ?E ?B 0 ?M = ((10, ?B), snd (build ?E ?B 0 ?M))"
    by (simp add: sample_defs)
  from first [THEN conjunct2, THEN conjunct2, THEN conjunct1, rule_format, OF wf0 env]
  have wf1: "store_below_brk ?s1"
    and un1: "store ?m1 (brk ?s0) = None \<and> store ?m1 (Suc (brk ?s0)) = None"
    using it lo by blast+
  from un1 brk0 have a: "store ?m1 0 = None" "store ?m1 1 = None"
    by simp_all
  have filled: "store (snd (build ?E ?B 0 ?M)) 0 = Some (ColMapper [0 \<mapsto> 0])"
      "store (snd (build ?E ?B 0 ?M)) 1 = Some (IdAllocator 1)"
    by (simp_all add: sample_defs)
  from first [THEN conjunct1, rule_format, OF it lo bu] filled
  have b: "store (memory (snd (buildPlan ?E ?s0 () 0 () ()))) 0 = Some (ColMapper [0 \<mapsto> 0])"
      "store (memory (snd (buildPlan ?E ?s0 () 0 () ()))) 1 = Some (IdAllocator 1)"
    by simp_all
  have n1: "buildersOf (newCalls ?s0 ?s1) \<noteq> []"
    by (simp add: run_defs sample_defs buildersOf_simps builderOf_def)
  from first [THEN conjunct2, THEN conjunct1] n1 brk0
  have c: "buildersOf (newCalls ?s0 ?s1) =
     [\<lparr>sb = (), ctx = (), is = (), colMapper = 0, allocator = 1, err = None\<rparr>]"
    and brk1: "brk ?s1 = 2"
    by simp_all
  \<comment> \<open>the second run, from the state the first left\<close>
  let ?n1 = "snd (InferType ?E 3 (memory ?s1))"
  let ?n2 = "snd (logicOptimize ?E () 3 ?n1)"
  have it2: "InferType ?E 3 (memory ?s1) = (None, ?n1)"
    by (simp add: sample_defs)
  have lo2: "(if \<not> isSelectStmt ?E 3 \<or> \<not> UseNewPlanner ?E
             then logicOptimize ?E () 3 ?n1 else (None, ?n1)) = (None, ?n2)"
    by (simp add: sample_defs)
  from second [THEN conjunct2, THEN conjunct2, THEN conjunct1, rule_format, OF wf1 env]
  have un2: "store ?n2 (brk ?s1) = None \<and> store ?n2 (Suc (brk ?s1)) = None"
    using it2 lo2 by blast
  with brk1 have d: "store ?n2 2 = None" "store ?n2 3 = None"
    by simp_all
  have e: "store ?n2 0 = Some (ColMapper [0 \<mapsto> 0])"
    by (simp add: run_defs sample_defs)
  have n2: "buildersOf (newCalls ?s1 (snd ?run2)) \<noteq> []"
    by (simp add: run_defs sample_defs buildersOf_simps builderOf_def)
  from second [THEN conjunct2, THEN conjunct1] n2 brk1
  have f: "buildersOf (newCalls ?s1 (snd ?run2)) =
     [\<lparr>sb = (), ctx = (), is = (), colMapper = 2, allocator = 3, err = None\<rparr>]"
    by simp
  from wf0 env a b c wf1 f d e show ?thesis
    by simp
qed

section \<open>The steps of \<open>PrepareStmt\<close>\<close>

text \<open>
  C10. \<open>PrepareStmt\<close> first calls \<open>ast.SetFlag\<close>, then \<open>Preprocess\<close> on the memory that
  \<open>SetFlag\<close> left. If \<open>Preprocess\<close> fails, these are the only two calls and the result
  is its wrapped error. Otherwise \<open>Validate\<close> is called with \<open>true\<close>; if it fails the
  result is its wrapped error, otherwise nil. The result is nil exactly when both
  \<open>Preprocess\<close> and \<open>Validate\<close> succeed.
\<close>

theorem PrepareStmt_short_circuit:
  assumes "PrepareStmt P s0 isc cx nd = (r, s')"
  shows "(case Preprocess P nd isc cx (SetFlag P nd (memory s0)) of
            (Some e, m) \<Rightarrow>
               r = Some (Trace e) \<and> memory s' = m
               \<and> newCalls s0 s' = [(Call_SetFlag nd, None), (Call_Preprocess nd isc cx, Some e)]
          | (None, m) \<Rightarrow>
              (case Validate P nd True m of
                 (Some e, m') \<Rightarrow>
                    r = Some (Trace e) \<and> memory s' = m'
                    \<and> newCalls s0 s' = [(Call_SetFlag nd, None), (Call_Preprocess nd isc cx, None),
                                       (Call_Validate nd True, Some e)]
               | (None, m') \<Rightarrow>
                    r = None \<and> memory s' = m'
                    \<and> newCalls s0 s' = [(Call_SetFlag nd, None), (Call_Preprocess nd isc cx, None),
                                       (Call_Validate nd True, None)]))
       \<and> (r = None \<longleftrightarrow>
            fst (Preprocess P nd isc cx (SetFlag P nd (memory s0))) = None
            \<and> fst (Validate P nd True (snd (Preprocess P nd isc cx (SetFlag P nd (memory s0))))) = None)"
  using assms
  by (auto simp: PrepareStmt_def returned_def newCalls_def Let_def split: prod.splits option.splits)

theorem PrepareStmt_short_circuit_witness:
  "fst (PrepareStmt (sample_prep_env 1) sample_state () () 0) = Some (Trace 1)
   \<and> newCalls sample_state (snd (PrepareStmt (sample_prep_env 1) sample_state () () 0)) =
       [(Call_SetFlag 0, None), (Call_Preprocess 0 () (), Some 1)]
   \<and> fst (PrepareStmt (sample_prep_env 2) sample_state () () 0) = Some (Trace 2)
   \<and> newCalls sample_state (snd (PrepareStmt (sample_prep_env 2) sample_state () () 0)) =
       [(Call_SetFlag 0, None), (Call_Preprocess 0 () (), None), (Call_Validate 0 True, Some 2)]
   \<and> fst (PrepareStmt (sample_prep_env 0) sample_state () () 0) = None
   \<and> newCalls sample_state (snd (PrepareStmt (sample_prep_env 0) sample_state () () 0)) =
       [(Call_SetFlag 0, None), (Call_Preprocess 0 () (), None), (Call_Validate 0 True, None)]"
proof -
  let ?pre = "PrepareStmt (sample_prep_env 1) sample_state () () 0"
  let ?val = "PrepareStmt (sample_prep_env 2) sample_state () () 0"
  let ?ok = "PrepareStmt (sample_prep_env 0) sample_state () () 0"
  have runs: "?pre = (fst ?pre, snd ?pre)" "?val = (fst ?val, snd ?val)" "?ok = (fst ?ok, snd ?ok)"
    by simp_all
  from PrepareStmt_short_circuit [OF runs(1)] PrepareStmt_short_circuit [OF runs(2)]
       PrepareStmt_short_circuit [OF runs(3)]
  show ?thesis
    by (simp add: sample_prep_env_def sample_defs)
qed

section \<open>The error-code table\<close>

text \<open>
  C9. The table installed by \<open>init\<close> for the optimizer class is the literal; in it
  \<open>CodeOneColumn\<close> and \<open>CodeSameColumns\<close>, two different codes, both map to
  \<open>mysql.ErrOperandColumns\<close>, so the mapping is not injective on its keys;
  \<open>CodeMultiWildCard\<close> maps to \<open>mysql.ErrParse\<close>; and \<open>CodeUnsupported\<close> has no entry.
\<close>

theorem mySQLErrCodes_not_injective_and_partial:
  "init M ClassOptimizer tbl ClassOptimizer = Some (mySQLErrCodes M)
   \<and> mySQLErrCodes M CodeOneColumn = Some (mysql_ErrOperandColumns M)
   \<and> mySQLErrCodes M CodeSameColumns = Some (mysql_ErrOperandColumns M)
   \<and> CodeOneColumn \<noteq> CodeSameColumns
   \<and> \<not> inj_on (mySQLErrCodes M) (dom (mySQLErrCodes M))
   \<and> mySQLErrCodes M CodeMultiWildCard = Some (mysql_ErrParse M)
   \<and> mySQLErrCodes M CodeUnsupported = None
   \<and> CodeUnsupported \<notin> dom (mySQLErrCodes M)"
proof -
  have one: "mySQLErrCodes M CodeOneColumn = Some (mysql_ErrOperandColumns M)"
    by (simp add: mySQLErrCodes_def Code_defs)
  have same: "mySQLErrCodes M CodeSameColumns = Some (mysql_ErrOperandColumns M)"
    by (simp add: mySQLErrCodes_def Code_defs)
  have neq: "CodeOneColumn \<noteq> CodeSameColumns"
    by (simp add: Code_defs)
  have "CodeOneColumn \<in> dom (mySQLErrCodes M)" "CodeSameColumns \<in> dom (mySQLErrCodes M)"
    using one same by (simp_all add: domIff)
  with one same neq have ninj: "\<not> inj_on (mySQLErrCodes M) (dom (mySQLErrCodes M))"
    by (metis inj_onD)
  have wild: "mySQLErrCodes M CodeMultiWildCard = Some (mysql_ErrParse M)"
    by (simp add: mySQLErrCodes_def Code_defs)
  have unsup: "mySQLErrCodes M CodeUnsupported = None"
    by (simp add: mySQLErrCodes_def Code_defs)
  have inst: "init M ClassOptimizer tbl ClassOptimizer = Some (mySQLErrCodes M)"
    by (simp add: init_def)
  from inst one same neq ninj wild unsup show ?thesis
    by (simp add: domIff)
qed

text \<open>
  C6, as stated, fails: after \<open>init\<close> the optimizer's table has no entry for
  \<open>CodeUnsupported\<close>, so not each of the six codes is mapped. (The \<open>mysql\<close> constants and
  the class are given sample values; the global starts empty.)
\<close>

theorem init_six_entries_counterexample:
  "\<not> (\<forall>c \<in> {CodeOneColumn, CodeSameColumns, CodeMultiWildCard, CodeUnsupported,
              CodeInvalidGroupFuncUse, CodeIllegalReference}.
        \<exists>t. init \<lparr>mysql_ErrOperandColumns = 1241, mysql_ErrParse = 1064,
                   mysql_ErrInvalidGroupFuncUse = 1111, mysql_ErrIllegalReference = 1247\<rparr>
                 10 Map.empty 10 = Some t
             \<and> c \<in> dom t)"
  by (simp add: init_def mySQLErrCodes_def Code_defs)

text \<open>
  C6, amended: after \<open>init\<close>, whatever the global held before, the optimizer's table has an
  entry for \<open>CodeOneColumn\<close>, \<open>CodeSameColumns\<close>, \<open>CodeMultiWildCard\<close>,
  \<open>CodeInvalidGroupFuncUse\<close> and \<open>CodeIllegalReference\<close>, five of the six codes, and none
  for \<open>CodeUnsupported\<close>.
\<close>

theorem init_five_entries:
  "\<exists>t. init M ClassOptimizer tbl ClassOptimizer = Some t
     \<and> CodeOneColumn \<in> dom t
     \<and> CodeSameColumns \<in> dom t
     \<and> CodeMultiWildCard \<in> dom t
     \<and> CodeInvalidGroupFuncUse \<in> dom t
     \<and> CodeIllegalReference \<in> dom t
     \<and> CodeUnsupported \<notin> dom t"
  by (simp add: init_def mySQLErrCodes_def Code_defs)

end
